theory Spec2Isabelle
  imports Main "HOL-Library.Word"
begin

unbundle bit_operations_syntax

section \<open>Python strings and integers\<close>

text \<open>
  A Python \<open>str\<close> is a sequence of Unicode code points, and \<open>ord\<close> returns the code
  point, which is not bounded by 255. A string is therefore a list of code points;
  \<open>py\<close> embeds an ASCII literal.
\<close>

type_synonym pystr = "nat list"

definition py :: "string \<Rightarrow> pystr" where
  "py s = map of_char s"

text \<open>\<open>hex(v)\<close>: sign, the prefix \<open>0x\<close>, lower-case digits without padding.\<close>

definition hex_digit :: "nat \<Rightarrow> nat" where
  "hex_digit d = (if d < 10 then 48 + d else 87 + d)"

fun hex_digits :: "nat \<Rightarrow> pystr" where
  "hex_digits n =
     (if n < 16 then [hex_digit n] else hex_digits (n div 16) @ [hex_digit (n mod 16)])"

definition py_hex :: "int \<Rightarrow> pystr" where
  "py_hex v =
     (if v < 0 then py ''-0x'' @ hex_digits (nat (- v)) else py ''0x'' @ hex_digits (nat v))"

text \<open>\<open>str.upper\<close>, on the ASCII letters (all that \<open>hex\<close> produces).\<close>

definition upper_char :: "nat \<Rightarrow> nat" where
  "upper_char c = (if 97 \<le> c \<and> c \<le> 122 then c - 32 else c)"

text \<open>\<open>str(i)\<close> for an integer: decimal digits, a minus sign when negative.\<close>

fun dec_digits :: "nat \<Rightarrow> pystr" where
  "dec_digits n = (if n < 10 then [48 + n] else dec_digits (n div 10) @ [48 + n mod 10])"

definition py_str :: "int \<Rightarrow> pystr" where
  "py_str i = (if i < 0 then 45 # dec_digits (nat (- i)) else dec_digits (nat i))"

text \<open>
  \<open>int(s)\<close> for a string, base 10, as CPython 3.11 reads it: white space around the
  number is dropped, a sign may come first, and the digits (any Unicode decimal digits)
  may be grouped by single underscores between digits. More than 4300 digits (the
  interpreter's default limit) are refused. \<open>None\<close> stands for ValueError.
\<close>

definition py_isspace :: "nat \<Rightarrow> bool" where
  "py_isspace c =
     ((9 \<le> c \<and> c \<le> 13) \<or> c = 32 \<or> c = 133 \<or> c = 160 \<or> c = 5760 \<or>
      (8192 \<le> c \<and> c \<le> 8202) \<or> c = 8232 \<or> c = 8233 \<or> c = 8239 \<or> c = 8287 \<or>
      c = 12288)"

text \<open>The code points of the digit zero of each decimal script; the other nine follow it.\<close>

definition decimal_zeros :: "nat list" where
  "decimal_zeros =
     [48, 1632, 1776, 1984, 2406, 2534, 2662, 2790, 2918, 3046, 3174, 3302, 3430, 3558,
      3664, 3792, 3872, 4160, 4240, 6112, 6160, 6470, 6608, 6784, 6800, 6992, 7088, 7232,
      7248, 42528, 43216, 43264, 43472, 43504, 43600, 44016, 65296, 66720, 68912, 69734,
      69872, 69942, 70096, 70384, 70736, 70864, 71248, 71360, 71472, 71904, 72016, 72784,
      73040, 73120, 92768, 92864, 93008, 120782, 120792, 120802, 120812, 120822, 123200,
      123632, 125264, 130032]"

definition digit_value :: "nat \<Rightarrow> nat option" where
  "digit_value c = map_option (\<lambda>z. c - z) (find (\<lambda>z. z \<le> c \<and> c < z + 10) decimal_zeros)"

text \<open>The value and the number of digits; an underscore must be followed by a digit.\<close>

fun parse_digits :: "nat \<Rightarrow> nat \<Rightarrow> pystr \<Rightarrow> (nat \<times> nat) option" where
  "parse_digits acc n [] = Some (acc, n)"
| "parse_digits acc n (c # cs) =
     (case digit_value c of
        Some d \<Rightarrow> parse_digits (10 * acc + d) (n + 1) cs
      | None \<Rightarrow>
          if c = 95 then
            (case cs of
               [] \<Rightarrow> None
             | c' # _ \<Rightarrow>
                 (case digit_value c' of None \<Rightarrow> None | Some _ \<Rightarrow> parse_digits acc n cs))
          else None)"

text \<open>The unsigned number: it begins with a digit.\<close>

definition parse_number :: "pystr \<Rightarrow> nat option" where
  "parse_number s =
     (case s of
        [] \<Rightarrow> None
      | c # _ \<Rightarrow>
          (case digit_value c of
             None \<Rightarrow> None
           | Some _ \<Rightarrow>
               (case parse_digits 0 0 s of
                  None \<Rightarrow> None
                | Some (v, n) \<Rightarrow> if n > 4300 then None else Some v)))"

definition strip :: "pystr \<Rightarrow> pystr" where
  "strip s = rev (dropWhile py_isspace (rev (dropWhile py_isspace s)))"

definition py_int :: "pystr \<Rightarrow> int option" where
  "py_int s =
     (case strip s of
        [] \<Rightarrow> None
      | c # cs \<Rightarrow>
          if c = 45 then map_option (\<lambda>n. - int n) (parse_number cs)
          else if c = 43 then map_option int (parse_number cs)
          else map_option int (parse_number (c # cs)))"

text \<open>\<open>s.split(sep)\<close> for a one-character separator: the first piece and the others.\<close>

fun split_parts :: "nat \<Rightarrow> pystr \<Rightarrow> pystr \<times> pystr list" where
  "split_parts sep [] = ([], [])"
| "split_parts sep (c # cs) =
     (let (p, ps) = split_parts sep cs
      in if c = sep then ([], p # ps) else (c # p, ps))"

definition split_on :: "nat \<Rightarrow> pystr \<Rightarrow> pystr list" where
  "split_on sep s = (let (p, ps) = split_parts sep s in p # ps)"

text \<open>\<open>sep.join(ps)\<close> for a one-character separator.\<close>

fun join :: "nat \<Rightarrow> pystr list \<Rightarrow> pystr" where
  "join sep [] = []"
| "join sep [p] = p"
| "join sep (p # q # ps) = p @ sep # join sep (q # ps)"

section \<open>Frame codec (web\_server.py)\<close>

definition STX :: nat where "STX = 2"
definition ETX :: nat where "ETX = 3"
definition EOT :: nat where "EOT = 4"
definition GS :: nat where "GS = 29"
definition RS :: nat where "RS = 30"

subsection \<open>Checksum\<close>

definition value_to_hex :: "int \<Rightarrow> pystr" where
  "value_to_hex v = map upper_char (drop 2 (py_hex v))"

text \<open>The running XOR of \<open>build_crc\<close>'s loop, starting from 0.\<close>

definition xor_of :: "pystr \<Rightarrow> int" where
  "xor_of rawstring = fold (\<lambda>char crc. crc XOR int char) rawstring 0"

definition build_crc :: "pystr \<Rightarrow> pystr" where
  "build_crc rawstring =
     (let crc = xor_of rawstring;
          crc = 255 - crc;
          msb = value_to_hex (drop_bit 4 crc);
          lsb = value_to_hex (crc AND 15)
      in msb @ lsb)"

text \<open>The specification's wording: the upper-case hexadecimal digit of a nibble.\<close>

definition upper_hex_digit :: "int \<Rightarrow> nat" where
  "upper_hex_digit d = py ''0123456789ABCDEF'' ! nat d"

subsection \<open>Encoding\<close>

text \<open>
  The \<open>parameters\<close> argument of \<open>send_ws_command\<close> is \<open>None\<close>, a string or a list of
  strings at its call sites. \<open>join\<close> iterates over it, so a string contributes its
  characters one by one.
\<close>

datatype params = PNone | PStr pystr | PList "pystr list"

fun truthy :: "params \<Rightarrow> bool" where
  "truthy PNone = False"
| "truthy (PStr s) = (s \<noteq> [])"
| "truthy (PList ps) = (ps \<noteq> [])"

fun items :: "params \<Rightarrow> pystr list" where
  "items PNone = []"
| "items (PStr s) = map (\<lambda>c. [c]) s"
| "items (PList ps) = ps"

text \<open>\<open>full_message\<close> of \<open>send_ws_command\<close>.\<close>

definition build_message :: "pystr \<Rightarrow> params \<Rightarrow> pystr" where
  "build_message command parameters =
     (let message = STX # command;
          message = (if truthy parameters then message @ GS # join GS (items parameters)
                     else message);
          message = message @ [ETX];
          crc = build_crc message
      in message @ crc @ [EOT])"

subsection \<open>Decoding\<close>

type_synonym frame = "pystr \<times> pystr list \<times> pystr list list"

text \<open>The body of \<open>on_message\<close>'s loop up to the call of \<open>manage_commands\<close>.\<close>

definition decode_unit :: "pystr \<Rightarrow> frame" where
  "decode_unit msg =
     (let str_msg = drop 1 (take (length msg - 3) msg);
          (cmd_params, records_data) = split_parts RS str_msg;
          (command, parameters) = split_parts GS cmd_params;
          records = map (split_on GS) records_data
      in (command, parameters, records))"

text \<open>The frames \<open>on_message\<close> hands to the dispatcher, in order.\<close>

definition decode :: "pystr \<Rightarrow> frame list" where
  "decode message =
     map decode_unit (filter (\<lambda>msg. \<not> length msg < 3) (split_on EOT message))"

text \<open>Every code point is a byte.\<close>

definition byte_string :: "pystr \<Rightarrow> bool" where
  "byte_string s = (\<forall>c\<in>set s. c < 256)"

text \<open>No control byte of the protocol, and every code point a byte.\<close>

definition plain :: "pystr \<Rightarrow> bool" where
  "plain s =
     (\<forall>c\<in>set s. c < 256 \<and> c \<noteq> STX \<and> c \<noteq> ETX \<and> c \<noteq> EOT \<and> c \<noteq> GS \<and> c \<noteq> RS)"

text \<open>No control byte of the protocol (code points unrestricted).\<close>

definition no_control :: "pystr \<Rightarrow> bool" where
  "no_control s = (\<forall>c\<in>set s. c \<noteq> STX \<and> c \<noteq> ETX \<and> c \<noteq> EOT \<and> c \<noteq> GS \<and> c \<noteq> RS)"

section \<open>Session state\<close>

datatype error = IndexError | ValueError | TypeError | RuntimeError

type_synonym timestamp = nat
type_synonym callback = nat

record settings =
  host :: pystr
  get_entity_names :: bool
  fetch_sensor_areas :: bool
  fetch_sensors :: bool
  fetch_lights :: bool
  fetch_scenarios :: bool

text \<open>
  What the code reads from outside the sources: the constant \<open>BRAND_PREFIX\<close> of
  \<open>const.py\<close> (a parameter here), the clock behind \<open>utcnow\<close>, and the entity
  registry behind the two \<open>check_name_changed\<close> functions, given as the unique ids for
  which each returns \<open>True\<close>. The modelled operations never change them.
\<close>

record environment =
  BRAND_PREFIX :: pystr
  utcnow :: timestamp
  bs_name_changed :: "pystr set"
  sw_name_changed :: "pystr set"

text \<open>
  \<open>MotionBinarySensor._is_motion_detected\<close> holds \<open>None\<close>, a \<open>bool\<close> (from
  \<open>device_status > 0\<close> at creation) or an \<open>int\<close> (from \<open>update_state\<close>).
\<close>

datatype motion = MNone | MBool bool | MInt int

record motion_binary_sensor =
  bs_unique_id :: pystr
  bs_is_motion_detected :: motion
  bs_ave_device_id :: int
  bs_family :: int
  bs_last_revealed :: "timestamp option"
  bs_last_cleared :: "timestamp option"
  bs_ave_name :: "pystr option"
  bs_name :: pystr

text \<open>
  \<open>LightSwitch\<close>: \<open>sw_is_on\<close> is the field \<open>_is_on\<close>, \<open>sw_attr_is_on\<close> the
  field \<open>_attr_is_on\<close> behind the entity's \<open>is_on\<close> (\<open>None\<close> until assigned).
\<close>

record light_switch =
  sw_unique_id :: pystr
  sw_is_on :: "int option"
  sw_ave_device_id :: int
  sw_family :: int
  sw_ave_name :: "pystr option"
  sw_attr_is_on :: "bool option"
  sw_name :: pystr

text \<open>
  The effects on the outside, in order: a message given to \<open>ws_conn.send_str\<close>, a
  call of a registered creation callback with a new entity (by unique id), an entity's
  \<open>async_write_ha_state\<close>, and \<open>asyncio.sleep\<close>. Log lines are not recorded.
\<close>

datatype event =
    Sent pystr
  | AddBinarySensor callback pystr
  | AddSwitch callback pystr
  | WriteState pystr
  | Sleep nat

text \<open>
  \<open>AveWebServer\<close>. \<open>ws_conn\<close> is \<open>None\<close> or a connection whose \<open>closed\<close> flag is
  the given boolean; the two \<open>update\<close> slots hold \<open>None\<close> or the module function of
  that name, the two \<open>async_add\<close> slots \<open>None\<close> or a callback.
\<close>

record server =
  settings :: settings
  env :: environment
  ws_conn :: "bool option"
  connected :: bool
  started :: bool
  closed :: bool
  binary_sensors :: "pystr \<rightharpoonup> motion_binary_sensor"
  update_binary_sensor_slot :: bool
  async_add_bs_entities :: "callback option"
  switches :: "pystr \<rightharpoonup> light_switch"
  async_add_sw_entities :: "callback option"
  update_switch_slot :: bool
  trace :: "event list"

text \<open>The state after \<open>AveWebServer.__init__\<close>, given the settings it read.\<close>

definition init_server :: "settings \<Rightarrow> environment \<Rightarrow> server" where
  "init_server st e =
     \<lparr>settings = st, env = e, ws_conn = None, connected = False, started = False,
      closed = False, binary_sensors = Map.empty, update_binary_sensor_slot = False,
      async_add_bs_entities = None, switches = Map.empty, async_add_sw_entities = None,
      update_switch_slot = False, trace = []\<rparr>"

text \<open>
  A call either returns or raises; the mutations made before a raise stay, so both
  carry the state.
\<close>

datatype outcome = Done server | Raised error server

definition emit :: "event list \<Rightarrow> server \<Rightarrow> server" where
  "emit evs s = s\<lparr>trace := trace s @ evs\<rparr>"

subsection \<open>Registration (web\_server.py)\<close>

definition set_update_binary_sensor :: "server \<Rightarrow> server" where
  "set_update_binary_sensor s = s\<lparr>update_binary_sensor_slot := True\<rparr>"

definition set_update_switch :: "server \<Rightarrow> server" where
  "set_update_switch s = s\<lparr>update_switch_slot := True\<rparr>"



section \<open>Binary sensors (binary\_sensor.py)\<close>

definition bs_set_sensor_uid :: "int \<Rightarrow> int \<Rightarrow> pystr" where
  "bs_set_sensor_uid family device_id =
     py ''ave_motion_'' @ py_str family @ py ''_'' @ py_str device_id"

definition bs_check_name_changed :: "environment \<Rightarrow> pystr \<Rightarrow> bool" where
  "bs_check_name_changed e unique_id = (unique_id \<in> bs_name_changed e)"

definition bs_build_name :: "environment \<Rightarrow> int \<Rightarrow> int \<Rightarrow> pystr" where
  "bs_build_name e family ave_device_id =
     (let suffix = py ''sensor type '' @ py_str family;
          suffix = (if family = 12 then py ''antitheft area''
                    else if family = 1007 then py ''antitheft sensor'' else suffix)
      in BRAND_PREFIX e @ py '' '' @ suffix @ py '' '' @ py_str ave_device_id)"

text \<open>\<open>MotionBinarySensor.__init__\<close> with \<open>name=None\<close>, as both callers use it.\<close>

definition motion_binary_sensor_init ::
  "environment \<Rightarrow> pystr \<Rightarrow> int \<Rightarrow> int \<Rightarrow> motion \<Rightarrow> motion_binary_sensor" where
  "motion_binary_sensor_init e unique_id family ave_device_id is_motion_detected =
     \<lparr>bs_unique_id = unique_id, bs_is_motion_detected = is_motion_detected,
      bs_ave_device_id = ave_device_id, bs_family = family, bs_last_revealed = None,
      bs_last_cleared = None, bs_ave_name = None,
      bs_name = bs_build_name e family ave_device_id\<rparr>"

text \<open>The property \<open>is_on\<close>: \<open>None\<close> is the unknown state.\<close>

fun bs_is_on :: "motion_binary_sensor \<Rightarrow> bool option" where
  "bs_is_on sensor =
     (case bs_is_motion_detected sensor of
        MNone \<Rightarrow> None
      | MBool b \<Rightarrow> Some b
      | MInt i \<Rightarrow> Some (i > 0))"

text \<open>Python's truth value of the field.\<close>

fun motion_truthy :: "motion \<Rightarrow> bool" where
  "motion_truthy MNone = False"
| "motion_truthy (MBool b) = b"
| "motion_truthy (MInt i) = (i \<noteq> 0)"

definition bs_update_state ::
  "environment \<Rightarrow> motion_binary_sensor \<Rightarrow> int option \<Rightarrow> motion_binary_sensor \<times> event list" where
  "bs_update_state e sensor is_motion_detected =
     (case is_motion_detected of
        None \<Rightarrow> (sensor, [])
      | Some v \<Rightarrow>
          (let sensor =
                 (if v > 0 then sensor\<lparr>bs_last_revealed := Some (utcnow e)\<rparr>
                  else if motion_truthy (bs_is_motion_detected sensor)
                       then sensor\<lparr>bs_last_cleared := Some (utcnow e)\<rparr>
                  else sensor)
           in (sensor\<lparr>bs_is_motion_detected := MInt v\<rparr>, [WriteState (bs_unique_id sensor)])))"

definition bs_set_name :: "motion_binary_sensor \<Rightarrow> pystr option \<Rightarrow> motion_binary_sensor" where
  "bs_set_name sensor name = (case name of None \<Rightarrow> sensor | Some n \<Rightarrow> sensor\<lparr>bs_name := n\<rparr>)"

text \<open>
  \<open>async_write_ha_state\<close> raises RuntimeError while the entity's \<open>hass\<close> is
  \<open>None\<close>. \<open>MotionBinarySensor.__init__\<close> does not set \<open>hass\<close>, so a sensor that
  \<open>update_binary_sensor\<close> has just constructed has none: \<open>set_ave_name\<close> raises
  on it. The entities in the tables are taken as added to the platform, which sets
  \<open>hass\<close>; their state writes are recorded as events. The flag says which case it is.
\<close>

definition bs_set_ave_name ::
  "bool \<Rightarrow> motion_binary_sensor \<Rightarrow> pystr option \<Rightarrow>
   error + motion_binary_sensor \<times> event list" where
  "bs_set_ave_name has_hass sensor name =
     (case name of
        None \<Rightarrow> Inr (sensor, [])
      | Some n \<Rightarrow>
          if has_hass
          then Inr (sensor\<lparr>bs_ave_name := Some n\<rparr>, [WriteState (bs_unique_id sensor)])
          else Inl RuntimeError)"

text \<open>
  \<open>update_binary_sensor\<close> after its settings gate: the entry is updated or created.
  The entity in the table is the object the methods mutate, so each mutation is in the
  table when a later call raises.
\<close>

definition bs_update_existing ::
  "server \<Rightarrow> pystr \<Rightarrow> motion_binary_sensor \<Rightarrow> int \<Rightarrow> pystr option \<Rightarrow> outcome" where
  "bs_update_existing s unique_id sensor device_status name =
     (let (sensor, evs1) =
            (if device_status \<ge> 0 then bs_update_state (env s) sensor (Some device_status)
             else (sensor, []));
          s = emit evs1 (s\<lparr>binary_sensors := (binary_sensors s)(unique_id \<mapsto> sensor)\<rparr>)
      in if name \<noteq> None \<and> get_entity_names (settings s) then
           (case bs_set_ave_name True sensor name of
              Inl e \<Rightarrow> Raised e s
            | Inr (sensor, evs2) \<Rightarrow>
                (let sensor = (if \<not> bs_check_name_changed (env s) unique_id
                               then bs_set_name sensor name else sensor)
                 in Done (emit evs2
                           (s\<lparr>binary_sensors := (binary_sensors s)(unique_id \<mapsto> sensor)\<rparr>))))
         else Done s)"

definition bs_create ::
  "server \<Rightarrow> pystr \<Rightarrow> int \<Rightarrow> int \<Rightarrow> int \<Rightarrow> pystr option \<Rightarrow> outcome" where
  "bs_create s unique_id family ave_device_id device_status name =
     (let sensor = motion_binary_sensor_init (env s) unique_id family ave_device_id
                     (MBool (device_status > 0));
          named =
            (if family = 1007 then
               Inr (if \<not> bs_check_name_changed (env s) unique_id
                    then bs_set_name sensor (Some (bs_build_name (env s) family ave_device_id))
                    else sensor, [])
             else if name \<noteq> None \<and> get_entity_names (settings s) then
               (if \<not> bs_check_name_changed (env s) unique_id then
                  (case bs_set_ave_name False sensor name of
                     Inl e \<Rightarrow> Inl e
                   | Inr (sensor, evs) \<Rightarrow> Inr (bs_set_name sensor name, evs))
                else Inr (sensor, []))
             else Inr (sensor, []))
      in case named of
           Inl e \<Rightarrow> Raised e s
         | Inr (sensor, evs) \<Rightarrow>
             (let s = emit evs (s\<lparr>binary_sensors := (binary_sensors s)(unique_id \<mapsto> sensor)\<rparr>)
              in case async_add_bs_entities s of
                   None \<Rightarrow> Raised TypeError s
                 | Some func \<Rightarrow> Done (emit [AddBinarySensor func unique_id] s)))"

definition bs_store :: "server \<Rightarrow> int \<Rightarrow> int \<Rightarrow> int \<Rightarrow> pystr option \<Rightarrow> outcome" where
  "bs_store s family ave_device_id device_status name =
     (let unique_id = bs_set_sensor_uid family ave_device_id
      in case binary_sensors s unique_id of
           Some sensor \<Rightarrow> bs_update_existing s unique_id sensor device_status name
         | None \<Rightarrow> bs_create s unique_id family ave_device_id device_status name)"

definition update_binary_sensor ::
  "server \<Rightarrow> int \<Rightarrow> int \<Rightarrow> int \<Rightarrow> pystr option \<Rightarrow> outcome" where
  "update_binary_sensor s family ave_device_id device_status name =
     (if family = 12 then
        (if \<not> fetch_sensor_areas (settings s) then Done s
         else bs_store s family ave_device_id device_status name)
      else if family = 1007 then
        (if \<not> fetch_sensors (settings s) then Done s
         else bs_store s family ave_device_id device_status name)
      else Done s)"

section \<open>Switches (switch.py)\<close>

definition sw_set_sensor_uid :: "int \<Rightarrow> int \<Rightarrow> pystr" where
  "sw_set_sensor_uid family ave_device_id =
     py ''ave_switch_'' @ py_str family @ py ''_'' @ py_str ave_device_id"

definition sw_check_name_changed :: "environment \<Rightarrow> pystr \<Rightarrow> bool" where
  "sw_check_name_changed e unique_id = (unique_id \<in> sw_name_changed e)"

definition sw_build_name :: "environment \<Rightarrow> int \<Rightarrow> int \<Rightarrow> pystr" where
  "sw_build_name e family ave_device_id =
     (let suffix = py ''sensor type '' @ py_str family;
          suffix = (if family = 1 then py ''light''
                    else if family = 6 then py ''sccenario'' else suffix)
      in BRAND_PREFIX e @ py '' '' @ suffix @ py '' '' @ py_str ave_device_id)"

text \<open>
  \<open>LightSwitch.__init__\<close>, with the web server given (as \<open>update_switch\<close> does).
  It sets \<open>hass\<close> from the web server, and \<open>update_switch\<close> makes no state write on
  a switch it has just constructed.
\<close>

definition light_switch_init ::
  "environment \<Rightarrow> pystr \<Rightarrow> int \<Rightarrow> int \<Rightarrow> int option \<Rightarrow> pystr option \<Rightarrow> pystr option \<Rightarrow> light_switch" where
  "light_switch_init e unique_id family ave_device_id is_on name ave_name =
     \<lparr>sw_unique_id = unique_id, sw_is_on = is_on, sw_ave_device_id = ave_device_id,
      sw_family = family, sw_ave_name = ave_name,
      sw_attr_is_on = (case is_on of
                         None \<Rightarrow> None
                       | Some v \<Rightarrow> if v \<ge> 0 then Some (v \<noteq> 0) else None),
      sw_name = (case name of None \<Rightarrow> sw_build_name e family ave_device_id | Some n \<Rightarrow> n)\<rparr>"

definition sw_update_state :: "light_switch \<Rightarrow> int option \<Rightarrow> light_switch \<times> event list" where
  "sw_update_state switch is_on =
     (case is_on of
        None \<Rightarrow> (switch, [])
      | Some v \<Rightarrow>
          if v < 0 then (switch, [])
          else (switch\<lparr>sw_attr_is_on := Some (v \<noteq> 0)\<rparr>, [WriteState (sw_unique_id switch)]))"

definition sw_set_name :: "light_switch \<Rightarrow> pystr option \<Rightarrow> light_switch \<times> event list" where
  "sw_set_name switch name =
     (case name of
        None \<Rightarrow> (switch, [])
      | Some n \<Rightarrow> (switch\<lparr>sw_name := n\<rparr>, [WriteState (sw_unique_id switch)]))"

definition sw_set_ave_name :: "light_switch \<Rightarrow> pystr option \<Rightarrow> light_switch \<times> event list" where
  "sw_set_ave_name switch name =
     (case name of
        None \<Rightarrow> (switch, [])
      | Some n \<Rightarrow> (switch\<lparr>sw_ave_name := Some n\<rparr>, [WriteState (sw_unique_id switch)]))"

definition sw_update_existing ::
  "server \<Rightarrow> pystr \<Rightarrow> light_switch \<Rightarrow> int \<Rightarrow> pystr option \<Rightarrow> outcome" where
  "sw_update_existing s unique_id switch device_status name =
     (let (switch, evs1) =
            (if device_status \<ge> 0 then sw_update_state switch (Some device_status)
             else (switch, []));
          (switch, evs2) =
            (if name \<noteq> None \<and> get_entity_names (settings s) then
               (let (switch, evs) = sw_set_ave_name switch name
                in (if \<not> sw_check_name_changed (env s) unique_id then
                      (let (switch, evs') = sw_set_name switch name in (switch, evs @ evs'))
                    else (switch, evs)))
             else (switch, []))
      in Done (emit (evs1 @ evs2) (s\<lparr>switches := (switches s)(unique_id \<mapsto> switch)\<rparr>)))"

definition sw_create ::
  "server \<Rightarrow> pystr \<Rightarrow> int \<Rightarrow> int \<Rightarrow> int \<Rightarrow> pystr option \<Rightarrow> outcome" where
  "sw_create s unique_id family ave_device_id device_status name =
     (let (entity_name, entity_ave_name) =
            (if name \<noteq> None \<and> get_entity_names (settings s) then (name, name)
             else (None, None));
          switch = light_switch_init (env s) unique_id family ave_device_id
                     (Some device_status) entity_name entity_ave_name;
          s = s\<lparr>switches := (switches s)(unique_id \<mapsto> switch)\<rparr>
      in case async_add_sw_entities s of
           None \<Rightarrow> Raised TypeError s
         | Some func \<Rightarrow> Done (emit [AddSwitch func unique_id] s))"

definition sw_store :: "server \<Rightarrow> int \<Rightarrow> int \<Rightarrow> int \<Rightarrow> pystr option \<Rightarrow> outcome" where
  "sw_store s family ave_device_id device_status name =
     (let unique_id = sw_set_sensor_uid family ave_device_id
      in case switches s unique_id of
           Some switch \<Rightarrow> sw_update_existing s unique_id switch device_status name
         | None \<Rightarrow> sw_create s unique_id family ave_device_id device_status name)"

definition update_switch ::
  "server \<Rightarrow> int \<Rightarrow> int \<Rightarrow> int \<Rightarrow> pystr option \<Rightarrow> outcome" where
  "update_switch s family ave_device_id device_status name =
     (if family = 1 then
        (if \<not> fetch_lights (settings s) then Done s
         else sw_store s family ave_device_id device_status name)
      else Done s)"

section \<open>Session and dispatcher (web\_server.py)\<close>

definition send_ws_command :: "server \<Rightarrow> pystr \<Rightarrow> params \<Rightarrow> server" where
  "send_ws_command s command parameters =
     (let full_message = build_message command parameters
      in case ws_conn s of
           Some False \<Rightarrow> emit [Sent full_message] s
         | _ \<Rightarrow> s)"

definition on_connect_actions :: "server \<Rightarrow> server" where
  "on_connect_actions s =
     (case ws_conn s of
        Some False \<Rightarrow>
          (let s = send_ws_command s (py ''LDI'') PNone;
               s = (if fetch_lights (settings s) then send_ws_command s (py ''GSF'') (PStr (py ''1''))
                    else s);
               s = (if fetch_sensor_areas (settings s) then
                      send_ws_command (send_ws_command s (py ''GSF'') (PList [py ''12'']))
                        (py ''WSF'') (PStr (py ''12''))
                    else s)
           in send_ws_command s (py ''SU3'') PNone)
      | _ \<Rightarrow> s)"

text \<open>The calls through the two \<open>update\<close> slots: calling \<open>None\<close> raises TypeError.\<close>

definition call_update_binary_sensor ::
  "server \<Rightarrow> int \<Rightarrow> int \<Rightarrow> int \<Rightarrow> pystr option \<Rightarrow> outcome" where
  "call_update_binary_sensor s family ave_device_id device_status name =
     (if update_binary_sensor_slot s
      then update_binary_sensor s family ave_device_id device_status name
      else Raised TypeError s)"

definition call_update_switch ::
  "server \<Rightarrow> int \<Rightarrow> int \<Rightarrow> int \<Rightarrow> pystr option \<Rightarrow> outcome" where
  "call_update_switch s family ave_device_id device_status name =
     (if update_switch_slot s
      then update_switch s family ave_device_id device_status name
      else Raised TypeError s)"

text \<open>\<open>xs[i]\<close> and \<open>int(xs[i])\<close>, with their exceptions.\<close>

definition item_at :: "pystr list \<Rightarrow> nat \<Rightarrow> error + pystr" where
  "item_at xs i = (if i < length xs then Inr (xs ! i) else Inl IndexError)"

definition int_at :: "pystr list \<Rightarrow> nat \<Rightarrow> error + int" where
  "int_at xs i =
     (case item_at xs i of
        Inl e \<Rightarrow> Inl e
      | Inr x \<Rightarrow> (case py_int x of None \<Rightarrow> Inl ValueError | Some v \<Rightarrow> Inr v))"

definition manage_upd :: "server \<Rightarrow> pystr list \<Rightarrow> pystr list list \<Rightarrow> outcome" where
  "manage_upd s parameters records =
     (case item_at parameters 0 of
        Inl e \<Rightarrow> Raised e s
      | Inr p0 \<Rightarrow>
          if p0 = py ''WS'' then
            (case int_at parameters 1 of
               Inl e \<Rightarrow> Raised e s
             | Inr device_type \<Rightarrow>
            (case int_at parameters 2 of
               Inl e \<Rightarrow> Raised e s
             | Inr device_id \<Rightarrow>
            (case int_at parameters 3 of
               Inl e \<Rightarrow> Raised e s
             | Inr device_status \<Rightarrow>
                 if device_id > 200000 then Done s
                 else if device_type = 1 \<and> fetch_lights (settings s)
                      then call_update_switch s device_type device_id device_status None
                 else Done s)))
          else if p0 = py ''X'' then
            (case item_at parameters 1 of
               Inl e \<Rightarrow> Raised e s
             | Inr p1 \<Rightarrow>
                 if p1 = py ''A'' then
                   (if \<not> fetch_sensor_areas (settings s) then Done s
                    else
                      (case int_at parameters 2 of
                         Inl e \<Rightarrow> Raised e s
                       | Inr area_progressive \<Rightarrow>
                      (case int_at parameters 6 of
                         Inl e \<Rightarrow> Raised e s
                       | Inr area_clear \<Rightarrow>
                           (let status = (if area_clear > 0 then 0 else 1)
                            in call_update_binary_sensor s 12 area_progressive status None))))
                 else if p1 = py ''S'' then
                   (if \<not> fetch_sensors (settings s) then Done s
                    else
                      (case int_at parameters 2 of
                         Inl e \<Rightarrow> Raised e s
                       | Inr sensor_id \<Rightarrow>
                      (case int_at parameters 4 of
                         Inl e \<Rightarrow> Raised e s
                       | Inr sensor_status \<Rightarrow>
                           call_update_binary_sensor s 1007 sensor_id sensor_status None)))
                 else if p1 = py ''U'' then
                   (case item_at parameters 2 of
                      Inl e \<Rightarrow> Raised e s
                    | Inr _ \<Rightarrow> Done s)
                 else Done s)
          else if p0 = py ''WT'' then
            (case item_at parameters 1 of
               Inl e \<Rightarrow> Raised e s
             | Inr _ \<Rightarrow> Done s)
          else Done s)"

fun gsf_binary_sensors :: "server \<Rightarrow> pystr \<Rightarrow> pystr list list \<Rightarrow> outcome" where
  "gsf_binary_sensors s p0 [] = Done s"
| "gsf_binary_sensors s p0 (record # rest) =
     (case int_at record 0 of
        Inl e \<Rightarrow> Raised e s
      | Inr device_id \<Rightarrow>
     (case int_at record 1 of
        Inl e \<Rightarrow> Raised e s
      | Inr device_status \<Rightarrow>
     (case py_int p0 of
        None \<Rightarrow> Raised ValueError s
      | Some family \<Rightarrow>
          (case call_update_binary_sensor s family device_id device_status None of
             Raised e s' \<Rightarrow> Raised e s'
           | Done s' \<Rightarrow> gsf_binary_sensors s' p0 rest))))"

fun gsf_switches :: "server \<Rightarrow> pystr list list \<Rightarrow> outcome" where
  "gsf_switches s [] = Done s"
| "gsf_switches s (record # rest) =
     (case int_at record 0 of
        Inl e \<Rightarrow> Raised e s
      | Inr device_id \<Rightarrow>
     (case int_at record 1 of
        Inl e \<Rightarrow> Raised e s
      | Inr device_status \<Rightarrow>
          (case call_update_switch s 1 device_id device_status None of
             Raised e s' \<Rightarrow> Raised e s'
           | Done s' \<Rightarrow> gsf_switches s' rest)))"

definition manage_gsf :: "server \<Rightarrow> pystr list \<Rightarrow> pystr list list \<Rightarrow> outcome" where
  "manage_gsf s parameters records =
     (case item_at parameters 0 of
        Inl e \<Rightarrow> Raised e s
      | Inr p0 \<Rightarrow>
          (case (if p0 = py ''7'' \<or> p0 = py ''12'' then gsf_binary_sensors s p0 records
                 else Done s) of
             Raised e s' \<Rightarrow> Raised e s'
           | Done s' \<Rightarrow> if p0 = py ''1'' then gsf_switches s' records else Done s'))"

fun manage_ldi_records :: "server \<Rightarrow> pystr list list \<Rightarrow> outcome" where
  "manage_ldi_records s [] = Done s"
| "manage_ldi_records s (record # rest) =
     (case int_at record 0 of
        Inl e \<Rightarrow> Raised e s
      | Inr device_id \<Rightarrow>
     (case item_at record 1 of
        Inl e \<Rightarrow> Raised e s
      | Inr device_name \<Rightarrow>
     (case int_at record 2 of
        Inl e \<Rightarrow> Raised e s
      | Inr device_type \<Rightarrow>
          (case (if device_type = 12
                   then call_update_binary_sensor s 12 device_id (- 1) (Some device_name)
                 else if device_type = 11 then Done s
                 else if device_type = 1
                   then call_update_switch s 1 device_id (- 1) (Some device_name)
                 else Done s) of
             Raised e s' \<Rightarrow> Raised e s'
           | Done s' \<Rightarrow> manage_ldi_records s' rest))))"

definition manage_ldi :: "server \<Rightarrow> pystr list \<Rightarrow> pystr list list \<Rightarrow> outcome" where
  "manage_ldi s parameters records = manage_ldi_records s records"

definition manage_commands :: "server \<Rightarrow> pystr \<Rightarrow> pystr list \<Rightarrow> pystr list list \<Rightarrow> outcome" where
  "manage_commands s command parameters records =
     (if command = py ''pong'' then Done s
      else if command = py ''ack'' then
        (case item_at parameters 0 of Inl e \<Rightarrow> Raised e s | Inr _ \<Rightarrow> Done s)
      else if command = py ''ping'' then Done (send_ws_command s (py ''PONG'') PNone)
      else if command = py ''gsf'' then manage_gsf s parameters records
      else if command = py ''upd'' then manage_upd s parameters records
      else if command = py ''ldi'' then manage_ldi s parameters records
      else if command = py ''cld'' then Done s
      else if command = py ''net'' then Done s
      else if command = py ''nack'' then Done s
      else Done s)"

text \<open>
  The loop of \<open>on_message\<close> over the units of a buffer. An exception leaves the loop:
  the \<open>try\<close> encloses the whole loop.
\<close>

fun process_units :: "server \<Rightarrow> pystr list \<Rightarrow> outcome" where
  "process_units s [] = Done s"
| "process_units s (msg # rest) =
     (if length msg < 3 then process_units s rest
      else
        (case decode_unit msg of
           (command, parameters, records) \<Rightarrow>
             (case manage_commands s command parameters records of
                Raised e s' \<Rightarrow> Raised e s'
              | Done s' \<Rightarrow> process_units s' rest)))"

text \<open>
  \<open>on_message\<close> on the text of a message; \<open>None\<close> stands for bytes that are not valid
  UTF-8, whose decoding raises inside the \<open>try\<close>. The handler logs any exception and
  returns.
\<close>

definition on_message :: "server \<Rightarrow> pystr option \<Rightarrow> server" where
  "on_message s message =
     (case message of
        None \<Rightarrow> s
      | Some text \<Rightarrow>
          (case process_units s (split_on EOT text) of
             Done s' \<Rightarrow> s'
           | Raised e s' \<Rightarrow> s'))"

subsection \<open>The connection loop\<close>

text \<open>
  The network is a script of connection attempts. An attempt is refused
  (\<open>authenticate\<close> returns \<open>False\<close>) or accepted; an accepted connection delivers binary
  messages (other message types are skipped by the loop) and then ends: the peer closes
  it or an ERROR message arrives (the loop ends or breaks, with the connection closed),
  reading raises an exception, or \<open>disconnect\<close> is called from outside.
  The loop is followed until the script is used up. An iteration that finds the
  connection still open reads on without a new attempt; it does not arise from a new
  session, and the model stops there.
\<close>

datatype ws_msg = Binary "pystr option" | Other

datatype stream_end = PeerCloses | Raises | Disconnect

datatype attempt = Refused | Accepted "ws_msg list" stream_end

fun receive :: "server \<Rightarrow> ws_msg list \<Rightarrow> server" where
  "receive s [] = s"
| "receive s (Binary data # rest) = receive (on_message s data) rest"
| "receive s (Other # rest) = receive s rest"

fun needs_connect :: "server \<Rightarrow> bool" where
  "needs_connect s =
     (if \<not> connected s then True
      else (case ws_conn s of None \<Rightarrow> True | Some c \<Rightarrow> c))"

fun stream_ends :: "server \<Rightarrow> stream_end \<Rightarrow> server" where
  "stream_ends s PeerCloses = s\<lparr>ws_conn := Some True\<rparr>"
| "stream_ends s Raises = emit [Sleep 5] (s\<lparr>connected := False\<rparr>)"
| "stream_ends s Disconnect = s\<lparr>closed := True, ws_conn := None, connected := False\<rparr>"

fun run_loop :: "server \<Rightarrow> attempt list \<Rightarrow> server" where
  "run_loop s [] = s"
| "run_loop s (Refused # script) =
     (if closed s then s
      else if needs_connect s then run_loop (emit [Sleep 5] s) script
      else s)"
| "run_loop s (Accepted msgs ending # script) =
     (if closed s then s
      else if needs_connect s then
        (let s = s\<lparr>ws_conn := Some False, connected := True\<rparr>;
             s = (if started s then on_connect_actions s else s);
             s = receive s msgs
         in run_loop (stream_ends s ending) script)
      else s)"

definition start :: "server \<Rightarrow> attempt list \<Rightarrow> server" where
  "start s script = (if started s then s else run_loop (s\<lparr>started := True\<rparr>) script)"

text \<open>
  An example session: everything enabled, nothing renamed, the clock at 10, connected,
  with the platform callbacks registered.
\<close>

definition ex_settings :: settings where
  "ex_settings = \<lparr>host = py ''hub'', get_entity_names = True, fetch_sensor_areas = True,
     fetch_sensors = True, fetch_lights = True, fetch_scenarios = False\<rparr>"

definition ex_env :: environment where
  "ex_env = \<lparr>BRAND_PREFIX = py ''AVE'', utcnow = 10, bs_name_changed = {}, sw_name_changed = {}\<rparr>"

definition ex_server :: server where
  "ex_server =
     (init_server ex_settings ex_env)
       \<lparr>ws_conn := Some False, connected := True, update_binary_sensor_slot := True,
        async_add_bs_entities := Some 1, async_add_sw_entities := Some 2,
        update_switch_slot := True\<rparr>"

section \<open>Derived notions and example sessions\<close>

text \<open>An inbound \<open>ldi\<close> message listing area 5 ("Hall", type 12) and light 7 ("Lamp", type 1).\<close>

definition ldi_text :: pystr where
  "ldi_text =
     STX # py ''ldi'' @ RS # py ''5'' @ GS # py ''Hall'' @ GS # py ''12''
       @ RS # py ''7'' @ GS # py ''Lamp'' @ GS # py ''1'' @ ETX # py ''00'' @ [EOT]"

text \<open>The example session with name fetching switched off.\<close>

definition ex_unnamed :: server where
  "ex_unnamed = ex_server\<lparr>settings := ex_settings\<lparr>get_entity_names := False\<rparr>\<rparr>"

text \<open>The state a call leaves behind, whether it returned or raised.\<close>

fun outcome_state :: "outcome \<Rightarrow> server" where
  "outcome_state (Done s) = s"
| "outcome_state (Raised e s) = s"

text \<open>Dispatching a list of frames in order, up to the first call of \<open>manage_commands\<close> that raises.\<close>

fun dispatch_frames :: "server \<Rightarrow> frame list \<Rightarrow> outcome" where
  "dispatch_frames s [] = Done s"
| "dispatch_frames s ((command, parameters, records) # rest) =
     (case manage_commands s command parameters records of
        Raised e s' \<Rightarrow> Raised e s'
      | Done s' \<Rightarrow> dispatch_frames s' rest)"


text \<open>The settings gate of \<open>update_binary_sensor\<close> lets the family through.\<close>

definition bs_enabled :: "server \<Rightarrow> int \<Rightarrow> bool" where
  "bs_enabled s family =
     (family = 12 \<and> fetch_sensor_areas (settings s) \<or> family = 1007 \<and> fetch_sensors (settings s))"

text \<open>Two units of at least three characters and one shorter unit between them, none holding EOT.\<close>

definition clean_units :: "pystr \<Rightarrow> pystr \<Rightarrow> pystr \<Rightarrow> bool" where
  "clean_units u1 g u2 =
     (EOT \<notin> set u1 \<and> EOT \<notin> set g \<and> EOT \<notin> set u2 \<and>
      3 \<le> length u1 \<and> length g < 3 \<and> 3 \<le> length u2)"

text \<open>Inbound units: \<open>ack\<close> and \<open>ping\<close> without parameters (the received checksum is not verified).\<close>

definition ack_unit :: pystr where "ack_unit = STX # py ''ack'' @ ETX # py ''00''"

definition ping_unit :: pystr where "ping_unit = STX # py ''ping'' @ ETX # py ''00''"

text \<open>The device is enabled by the settings and already in its table.\<close>

definition bs_known :: "server \<Rightarrow> int \<Rightarrow> int \<Rightarrow> motion_binary_sensor \<Rightarrow> bool" where
  "bs_known s family ave_device_id sensor =
     (bs_enabled s family \<and>
      binary_sensors s (bs_set_sensor_uid family ave_device_id) = Some sensor)"

definition sw_known :: "server \<Rightarrow> int \<Rightarrow> light_switch \<Rightarrow> bool" where
  "sw_known s ave_device_id switch =
     (fetch_lights (settings s) \<and> switches s (sw_set_sensor_uid 1 ave_device_id) = Some switch)"

text \<open>One call after another; the second is made when the first returned.\<close>

definition and_then :: "outcome \<Rightarrow> (server \<Rightarrow> outcome) \<Rightarrow> outcome" where
  "and_then r f = (case r of Done s \<Rightarrow> f s | Raised e s \<Rightarrow> Raised e s)"






text \<open>The light is enabled, not yet in its table and not renamed by the user; names are fetched and the creation callback is registered.\<close>

definition fresh_switch :: "server \<Rightarrow> int \<Rightarrow> callback \<Rightarrow> bool" where
  "fresh_switch s i cb =
     (fetch_lights (settings s) \<and> get_entity_names (settings s) \<and>
      switches s (sw_set_sensor_uid 1 i) = None \<and> async_add_sw_entities s = Some cb \<and>
      sw_set_sensor_uid 1 i \<notin> sw_name_changed (env s))"

text \<open>The area is enabled and not yet in its table, names are not fetched (so that the seed creates the sensor without writing a name), and the creation callback is registered.\<close>

definition unnamed_sensor :: "server \<Rightarrow> int \<Rightarrow> callback \<Rightarrow> bool" where
  "unnamed_sensor s i cb =
     (fetch_sensor_areas (settings s) \<and> \<not> get_entity_names (settings s) \<and>
      binary_sensors s (bs_set_sensor_uid 12 i) = None \<and> async_add_bs_entities s = Some cb)"

text \<open>The seed of \<open>manage_ldi\<close> (status -1, with the name) and the status update of \<open>manage_gsf\<close> (no name), in both orders.\<close>

definition sw_seed_then_status :: "server \<Rightarrow> int \<Rightarrow> pystr \<Rightarrow> int \<Rightarrow> outcome" where
  "sw_seed_then_status s i name status =
     and_then (update_switch s 1 i (- 1) (Some name)) (\<lambda>s. update_switch s 1 i status None)"

definition sw_status_then_seed :: "server \<Rightarrow> int \<Rightarrow> pystr \<Rightarrow> int \<Rightarrow> outcome" where
  "sw_status_then_seed s i name status =
     and_then (update_switch s 1 i status None) (\<lambda>s. update_switch s 1 i (- 1) (Some name))"

definition bs_seed_then_status :: "server \<Rightarrow> int \<Rightarrow> pystr \<Rightarrow> int \<Rightarrow> outcome" where
  "bs_seed_then_status s i name status =
     and_then (update_binary_sensor s 12 i (- 1) (Some name))
       (\<lambda>s. update_binary_sensor s 12 i status None)"

definition bs_status_then_seed :: "server \<Rightarrow> int \<Rightarrow> pystr \<Rightarrow> int \<Rightarrow> outcome" where
  "bs_status_then_seed s i name status =
     and_then (update_binary_sensor s 12 i status None)
       (\<lambda>s. update_binary_sensor s 12 i (- 1) (Some name))"

text \<open>The example session with sensor areas switched off.\<close>

definition ex_no_areas :: server where
  "ex_no_areas = ex_server\<lparr>settings := ex_settings\<lparr>fetch_sensor_areas := False\<rparr>\<rparr>"

section \<open>Checksum: proofs\<close>

lemma fold_xor_bound:
  "\<forall>c\<in>set s. c < 256 \<Longrightarrow> 0 \<le> acc \<Longrightarrow> acc < 256 \<Longrightarrow>
   0 \<le> fold (\<lambda>char crc. crc XOR int char) s acc \<and>
   fold (\<lambda>char crc. crc XOR int char) s acc < 256"
proof (induction s arbitrary: acc)
  case Nil
  then show ?case by simp
next
  case (Cons c s)
  have c: "int c < 2 ^ 8" using Cons.prems(1) by simp
  have a: "acc < 2 ^ 8" using Cons.prems(3) by simp
  have "acc XOR int c < 2 ^ 8" using XOR_upper [OF Cons.prems(2) a c] .
  moreover have "0 \<le> acc XOR int c" using Cons.prems(2) by simp
  ultimately show ?case using Cons.IH [of "acc XOR int c"] Cons.prems(1) by simp
qed

lemma xor_of_bound: "\<forall>c\<in>set s. c < 256 \<Longrightarrow> 0 \<le> xor_of s \<and> xor_of s < 256"
  unfolding xor_of_def using fold_xor_bound [of s 0] by simp

lemma nat_below_16_cases:
  "n < 16 \<Longrightarrow> n \<in> {0, 1, 2, 3, 4, 5, 6, 7, 8, 9, 10, 11, 12, 13, 14, 15::nat}"
  by simp arith

lemma value_to_hex_nibble:
  assumes "0 \<le> v" "v < 16"
  shows "value_to_hex v = [upper_hex_digit v]"
proof -
  have "nat v < 16" using assms by simp
  then have "nat v \<in> {0, 1, 2, 3, 4, 5, 6, 7, 8, 9, 10, 11, 12, 13, 14, 15::nat}"
    by (rule nat_below_16_cases)
  moreover have "value_to_hex v = [upper_char (hex_digit (nat v))]"
    using assms by (simp add: value_to_hex_def py_hex_def py_def)
  ultimately show ?thesis
    by (auto simp add: upper_hex_digit_def py_def upper_char_def hex_digit_def)
qed

lemma upper_hex_digit_range:
  assumes "0 \<le> v" "v < 16"
  shows "48 \<le> upper_hex_digit v \<and> upper_hex_digit v \<le> 70"
proof -
  have "nat v < 16" using assms by simp
  then have "nat v \<in> {0, 1, 2, 3, 4, 5, 6, 7, 8, 9, 10, 11, 12, 13, 14, 15::nat}"
    by (rule nat_below_16_cases)
  then show ?thesis
    by (auto simp add: upper_hex_digit_def py_def)
qed

lemma and_15_bounds: "0 \<le> (k::int) AND 15 \<and> k AND 15 < 16"
proof -
  have "k AND 15 = k AND mask 4" by (simp add: mask_eq_exp_minus_1)
  also have "\<dots> = k mod 2 ^ 4" by (simp only: take_bit_eq_mask [symmetric] take_bit_eq_mod)
  finally show ?thesis by simp
qed

lemma high_nibble_bounds:
  assumes "0 \<le> x" "x < 256"
  shows "0 \<le> drop_bit 4 (255 - x) \<and> drop_bit 4 (255 - (x::int)) < 16"
  using assms unfolding drop_bit_int_def by simp arith

lemma build_crc_nibbles:
  assumes "\<forall>c\<in>set s. c < 256"
  shows "build_crc s = [upper_hex_digit (drop_bit 4 (255 - xor_of s)),
                        upper_hex_digit ((255 - xor_of s) AND 15)]"
proof -
  have b: "0 \<le> xor_of s \<and> xor_of s < 256" using assms by (rule xor_of_bound)
  have hi: "0 \<le> drop_bit 4 (255 - xor_of s) \<and> drop_bit 4 (255 - xor_of s) < 16"
    using b by (simp add: high_nibble_bounds)
  have lo: "0 \<le> (255 - xor_of s) AND 15 \<and> (255 - xor_of s) AND 15 < 16"
    by (rule and_15_bounds)
  show ?thesis
    using hi lo by (simp add: build_crc_def Let_def value_to_hex_nibble)
qed

lemma build_crc_shape:
  assumes "\<forall>c\<in>set s. c < 256"
  shows "\<exists>h l. build_crc s = [h, l] \<and> 48 \<le> h \<and> 48 \<le> l"
proof -
  have b: "0 \<le> xor_of s \<and> xor_of s < 256" using assms by (rule xor_of_bound)
  have hi: "0 \<le> drop_bit 4 (255 - xor_of s) \<and> drop_bit 4 (255 - xor_of s) < 16"
    using b by (simp add: high_nibble_bounds)
  have lo: "0 \<le> (255 - xor_of s) AND 15 \<and> (255 - xor_of s) AND 15 < 16"
    by (rule and_15_bounds)
  show ?thesis
    using build_crc_nibbles [OF assms] upper_hex_digit_range hi lo by simp
qed

text \<open>
  Claim C1, as amended. For every string whose code points are all below 256 (every
  string of bytes), \<open>build_crc\<close> returns exactly two characters: the upper-case
  hexadecimal digit of \<open>(0xFF - X) >> 4\<close> followed by that of \<open>(0xFF - X) & 0xF\<close>,
  where \<open>X\<close> is the XOR of the code points. (Being a function of its argument alone,
  it gives equal outputs on equal inputs.)
\<close>

theorem build_crc_two_hex_digits:
  assumes "byte_string s"
  shows "build_crc s = [upper_hex_digit (drop_bit 4 (255 - xor_of s)),
                        upper_hex_digit ((255 - xor_of s) AND 15)]
         \<and> length (build_crc s) = 2"
proof -
  have "\<forall>c\<in>set s. c < 256" using assms by (simp add: byte_string_def)
  then show ?thesis using build_crc_nibbles by simp
qed

theorem build_crc_two_hex_digits_witness:
  "byte_string (py ''LDI'') \<and> build_crc (py ''LDI'') = py ''BE''"
proof -
  have h: "byte_string (py ''LDI'')" by (simp add: byte_string_def py_def)
  show ?thesis
    using h build_crc_two_hex_digits [OF h]
    by (simp add: xor_of_def upper_hex_digit_def py_def drop_bit_int_def)
qed

text \<open>
  Claim C1 as stated fails on a string with a code point above 255: for the one-character
  string U+0100 the complement \<open>0xFF - 0x100\<close> is negative, \<open>hex\<close> prints a sign, and
  the result has three characters.
\<close>

theorem build_crc_wide_char_counterexample:
  "build_crc [256] = py ''X1F'' \<and> length (build_crc [256]) \<noteq> 2"
  by (simp add: build_crc_def xor_of_def value_to_hex_def py_hex_def py_def upper_char_def
      hex_digit_def)

section \<open>Codec: proofs\<close>

lemma split_parts_no_sep: "sep \<notin> set s \<Longrightarrow> split_parts sep s = (s, [])"
  by (induction s) auto

lemma split_parts_append:
  "sep \<notin> set a \<Longrightarrow> split_parts sep (a @ sep # b) = (a, split_on sep b)"
  by (induction a) (auto simp add: split_on_def split: prod.splits)

lemma split_on_append:
  "sep \<notin> set a \<Longrightarrow> split_on sep (a @ sep # b) = a # split_on sep b"
  by (simp add: split_on_def [of sep "a @ sep # b"] split_parts_append)

lemma split_on_no_sep: "sep \<notin> set s \<Longrightarrow> split_on sep s = [s]"
  by (simp add: split_on_def split_parts_no_sep)

lemma split_on_join:
  "ps \<noteq> [] \<Longrightarrow> \<forall>p\<in>set ps. sep \<notin> set p \<Longrightarrow> split_on sep (join sep ps) = ps"
proof (induction sep ps rule: join.induct)
  case (1 sep)
  then show ?case by simp
next
  case (2 sep p)
  then show ?case by (simp add: split_on_no_sep)
next
  case (3 sep p q ps)
  have "split_on sep (join sep (q # ps)) = q # ps" using 3 by simp
  moreover have "sep \<notin> set p" using 3 by simp
  ultimately show ?case by (simp add: split_on_append)
qed

lemma join_all:
  "P sep \<Longrightarrow> \<forall>p\<in>set ps. \<forall>c\<in>set p. P c \<Longrightarrow> \<forall>c\<in>set (join sep ps). P c"
  by (induction sep ps rule: join.induct) auto

lemma decode_unit_framed:
  assumes "RS \<notin> set body"
  shows "decode_unit (STX # body @ [ETX, h, l]) =
           (fst (split_parts GS body), snd (split_parts GS body), [])"
proof -
  have "drop 1 (take (length (STX # body @ [ETX, h, l]) - 3) (STX # body @ [ETX, h, l])) = body"
    by simp
  then show ?thesis
    using assms by (simp add: decode_unit_def split_parts_no_sep split: prod.splits)
qed

lemma decode_single:
  assumes "EOT \<notin> set u" "3 \<le> length u"
  shows "decode (u @ [EOT]) = [decode_unit u]"
proof -
  have "split_on EOT (u @ [EOT]) = [u, []]"
    using split_on_append [OF assms(1), of "[]"] by (simp add: split_on_def)
  then show ?thesis using assms(2) by (simp add: decode_def)
qed

lemma roundtrip_plain:
  assumes cmd: "plain command" and ps: "\<forall>p\<in>set parameters. plain p"
  shows "decode (build_message command (PList parameters)) = [(command, parameters, [])]"
proof -
  define body where
    "body = (if parameters \<noteq> [] then command @ GS # join GS parameters else command)"
  have join_chars: "\<forall>c\<in>set (join GS parameters). c < 256 \<and> c \<noteq> EOT \<and> c \<noteq> RS"
  proof (rule join_all)
    show "GS < 256 \<and> GS \<noteq> EOT \<and> GS \<noteq> RS" by (simp add: GS_def EOT_def RS_def)
    show "\<forall>p\<in>set parameters. \<forall>c\<in>set p. c < 256 \<and> c \<noteq> EOT \<and> c \<noteq> RS"
      using ps by (simp add: plain_def)
  qed
  have body_chars: "\<forall>c\<in>set body. c < 256 \<and> c \<noteq> EOT \<and> c \<noteq> RS"
    using cmd join_chars by (auto simp add: body_def plain_def GS_def EOT_def RS_def)
  have "\<forall>c\<in>set (STX # body @ [ETX]). c < 256"
    using body_chars by (simp add: STX_def ETX_def)
  then obtain h l where crc: "build_crc (STX # body @ [ETX]) = [h, l]"
    and h: "48 \<le> h" and l: "48 \<le> l"
    using build_crc_shape by blast
  have msg: "build_message command (PList parameters) = (STX # body @ [ETX, h, l]) @ [EOT]"
  proof (cases "parameters = []")
    case True
    then show ?thesis using crc by (simp add: build_message_def body_def Let_def)
  next
    case False
    then show ?thesis using crc by (simp add: build_message_def body_def Let_def)
  qed
  have no_eot: "EOT \<notin> set (STX # body @ [ETX, h, l])"
    using body_chars h l by (auto simp add: STX_def ETX_def EOT_def)
  have no_rs: "RS \<notin> set body" using body_chars by auto
  have gs_cmd: "GS \<notin> set command" using cmd by (auto simp add: plain_def)
  have split: "split_parts GS body = (command, parameters)"
  proof (cases "parameters = []")
    case True
    then show ?thesis using gs_cmd by (simp add: body_def split_parts_no_sep)
  next
    case False
    have "\<forall>p\<in>set parameters. GS \<notin> set p" using ps by (auto simp add: plain_def)
    then have "split_on GS (join GS parameters) = parameters"
      using False by (simp add: split_on_join)
    then show ?thesis using False gs_cmd by (simp add: body_def split_parts_append)
  qed
  have "decode (build_message command (PList parameters)) =
          [decode_unit (STX # body @ [ETX, h, l])]"
    unfolding msg using no_eot by (intro decode_single) simp_all
  then show ?thesis using decode_unit_framed [OF no_rs] split by simp
qed

text \<open>
  Claim C2, as amended. For every command string and every sequence of parameter
  strings that contain no control byte (0x02, 0x03, 0x04, 0x1D, 0x1E) and whose code
  points are all below 256, decoding the message built by \<open>send_ws_command\<close> with the
  procedure of \<open>on_message\<close> yields exactly one frame, \<open>(command, parameters, [])\<close>.
\<close>

theorem encode_decode_roundtrip:
  assumes "plain command" and "list_all plain parameters"
  shows "decode (build_message command (PList parameters)) = [(command, parameters, [])]"
  using assms by (simp add: roundtrip_plain list_all_iff)

theorem encode_decode_roundtrip_witness:
  "plain (py ''EBI'') \<and> list_all plain [py ''7'', py ''11''] \<and>
   decode (build_message (py ''EBI'') (PList [py ''7'', py ''11''])) =
     [(py ''EBI'', [py ''7'', py ''11''], [])]"
proof -
  have c: "plain (py ''EBI'')"
    by (simp add: plain_def py_def STX_def ETX_def EOT_def GS_def RS_def)
  have p: "list_all plain [py ''7'', py ''11'']"
    by (simp add: plain_def py_def STX_def ETX_def EOT_def GS_def RS_def)
  show ?thesis using c p encode_decode_roundtrip [OF c p] by simp
qed

text \<open>
  Claim C2 as stated fails for a command with a code point above 255 and no control
  byte: the checksum of the framed command U+0100 has three characters, so stripping
  the last three characters leaves ETX at the end of the decoded command.
\<close>

theorem encode_decode_wide_char_counterexample:
  "no_control [256] \<and>
   decode (build_message [256] (PList [])) = [([256, ETX], [], [])] \<and>
   decode (build_message [256] (PList [])) \<noteq> [([256], [], [])]"
  by (simp add: no_control_def decode_def build_message_def build_crc_def xor_of_def
      value_to_hex_def py_hex_def py_def upper_char_def hex_digit_def split_on_def
      decode_unit_def STX_def ETX_def EOT_def GS_def RS_def)

section \<open>Dispatcher, device tables and connection loop: proofs\<close>

lemmas ctrl_defs = STX_def ETX_def EOT_def GS_def RS_def

lemmas crc_defs = build_message_def build_crc_def xor_of_def value_to_hex_def py_hex_def
  upper_char_def hex_digit_def

text \<open>
  Claim C3. The dispatcher is not total: for the command \<open>ack\<close> with an empty parameter
  list, \<open>manage_commands\<close> evaluates \<open>parameters[0]\<close> for its log line and raises
  IndexError, in every state. The branch for \<open>nack\<close> guards the same access with
  \<open>len(parameters) > 0\<close> and returns. A hub frame \<open>STX ack ETX checksum EOT\<close> decodes to
  exactly this input.
\<close>

theorem manage_commands_ack_without_parameters:
  "manage_commands s (py ''ack'') [] [] = Raised IndexError s \<and>
   manage_commands s (py ''nack'') [] [] = Done s \<and>
   decode (build_message (py ''ack'') PNone) = [(py ''ack'', [], [])]"
  by (simp add: manage_commands_def item_at_def py_def decode_def decode_unit_def split_on_def
      crc_defs ctrl_defs)


lemma upd_xa_gated:
  assumes "\<not> fetch_sensor_areas (settings s)"
  shows "manage_commands s (py ''upd'') (py ''X'' # py ''A'' # rest) records = Done s"
  using assms by (simp add: manage_commands_def manage_upd_def item_at_def py_def)

text \<open>
  Claim C7. With lights and sensor areas enabled, a refused connection followed by an
  accepted one gives one 5-second wait and then the messages LDI, GSF with parameter
  \<open>1\<close>, GSF with parameter \<open>12\<close>, WSF and SU3, in that order. The WSF message is not the
  one with the parameter \<open>12\<close>: \<open>send_ws_command("WSF", "12")\<close> passes a string where
  the call for GSF passes the list \<open>["12"]\<close>, \<open>join\<close> iterates over its characters, and
  the message carries the two parameters \<open>1\<close> and \<open>2\<close>.
\<close>

theorem start_trace:
  "trace (start (init_server ex_settings ex_env) [Refused, Accepted [] Disconnect]) =
     [Sleep 5,
      Sent (build_message (py ''LDI'') (PList [])),
      Sent (build_message (py ''GSF'') (PList [py ''1''])),
      Sent (build_message (py ''GSF'') (PList [py ''12''])),
      Sent (build_message (py ''WSF'') (PList [py ''1'', py ''2''])),
      Sent (build_message (py ''SU3'') (PList []))] \<and>
   build_message (py ''WSF'') (PList [py ''1'', py ''2'']) \<noteq>
     build_message (py ''WSF'') (PList [py ''12''])"
  by (simp add: start_def init_server_def ex_settings_def ex_env_def on_connect_actions_def
      send_ws_command_def emit_def py_def crc_defs ctrl_defs)

lemmas ldi_eval_defs = on_message_def ldi_text_def decode_unit_def split_on_def py_def ctrl_defs
  manage_commands_def manage_ldi_def int_at_def item_at_def py_int_def strip_def
  py_isspace_def parse_number_def digit_value_def decimal_zeros_def
  call_update_binary_sensor_def call_update_switch_def ex_server_def init_server_def
  ex_settings_def ex_env_def update_binary_sensor_def update_switch_def bs_store_def
  sw_store_def bs_create_def sw_create_def bs_set_sensor_uid_def sw_set_sensor_uid_def
  py_str_def motion_binary_sensor_init_def light_switch_init_def bs_set_ave_name_def
  bs_set_name_def bs_check_name_changed_def emit_def Let_def

lemma ldi_decoded:
  "decode ldi_text =
     [(py ''ldi'', [], [[py ''5'', py ''Hall'', py ''12''], [py ''7'', py ''Lamp'', py ''1'']])]"
  by (simp add: ldi_text_def decode_def decode_unit_def split_on_def py_def ctrl_defs)

text \<open>
  With name fetching on, the seed of a new area raises: \<open>set_ave_name\<close> writes the state
  of the sensor just constructed, whose \<open>hass\<close> is not set. Nothing is cached, and
  \<open>on_message\<close> drops the rest of the \<open>ldi\<close> message.
\<close>

lemma named_area_seed_raises:
  "update_binary_sensor ex_server 12 5 (- 1) (Some (py ''Hall'')) = Raised RuntimeError ex_server"
  by (simp add: ldi_eval_defs)

lemma named_ldi_caches_nothing:
  "binary_sensors (on_message ex_server (Some ldi_text)) = Map.empty \<and>
   switches (on_message ex_server (Some ldi_text)) = Map.empty \<and>
   trace (on_message ex_server (Some ldi_text)) = []"
  by (simp add: ldi_eval_defs)

text \<open>
  Claim C9. A device seeded by \<open>ldi\<close> with status -1 is unknown only when it is a switch.
  With name fetching off (so that the creation of the sensor goes through),
  \<open>update_binary_sensor\<close> creates the entity with
  \<open>is_motion_detected = device_status > 0\<close>, which is \<open>False\<close>, so \<open>is_on\<close> is
  \<open>False\<close> (off) and not \<open>None\<close>; \<open>LightSwitch.__init__\<close> leaves \<open>_attr_is_on\<close>
  unassigned for a negative status.
\<close>

theorem seeded_states:
  "map_option bs_is_on (binary_sensors (on_message ex_unnamed (Some ldi_text)) (py ''ave_motion_12_5''))
     = Some (Some False) \<and>
   map_option sw_attr_is_on (switches (on_message ex_unnamed (Some ldi_text)) (py ''ave_switch_1_7''))
     = Some None"
  by (simp add: ldi_eval_defs ex_unnamed_def)

lemma process_units_frames:
  "process_units s units =
     dispatch_frames s (map decode_unit (filter (\<lambda>msg. \<not> length msg < 3) units))"
proof (induction units arbitrary: s)
  case Nil
  then show ?case by simp
next
  case (Cons msg rest)
  show ?case
  proof (cases "length msg < 3")
    case True
    then show ?thesis using Cons.IH by simp
  next
    case False
    obtain c p r where d: "decode_unit msg = (c, p, r)" by (cases "decode_unit msg")
    show ?thesis using False d Cons.IH by (simp split: outcome.splits)
  qed
qed

lemma on_message_frames:
  "on_message s (Some text) = outcome_state (dispatch_frames s (decode text))"
  by (simp add: on_message_def process_units_frames decode_def split: outcome.splits)

lemma decode_three_units:
  assumes "EOT \<notin> set u1" "EOT \<notin> set g" "EOT \<notin> set u2"
    and "3 \<le> length u1" "length g < 3" "3 \<le> length u2"
  shows "decode (u1 @ EOT # g @ EOT # u2) = [decode_unit u1, decode_unit u2]"
proof -
  have "split_on EOT (u1 @ EOT # g @ EOT # u2) = [u1, g, u2]"
    using assms(1,2,3) by (simp add: split_on_append split_on_no_sep)
  then show ?thesis using assms(4,5,6) by (simp add: decode_def)
qed

text \<open>
  Claim C4, as amended. The units of a buffer are processed in order: units shorter than
  three characters are skipped and each other unit is decoded and dispatched, until a
  dispatch raises; \<open>on_message\<close> catches the exception and returns, and the units after
  the failing one are not dispatched. A buffer of a valid unit, a unit shorter than three
  characters and a second valid unit, joined by EOT, yields exactly the two valid frames,
  in order.
\<close>

theorem on_message_units_in_order:
  assumes "clean_units u1 g u2"
  shows "decode (u1 @ EOT # g @ EOT # u2) = [decode_unit u1, decode_unit u2] \<and>
         on_message s (Some (u1 @ EOT # g @ EOT # u2)) =
           outcome_state (dispatch_frames s [decode_unit u1, decode_unit u2]) \<and>
         (\<forall>text. on_message s (Some text) = outcome_state (dispatch_frames s (decode text))) \<and>
         (\<forall>c p r e s' rest. manage_commands s c p r = Raised e s' \<longrightarrow>
            dispatch_frames s ((c, p, r) # rest) = Raised e s')"
proof -
  have d: "decode (u1 @ EOT # g @ EOT # u2) = [decode_unit u1, decode_unit u2]"
    using assms by (simp add: clean_units_def decode_three_units)
  show ?thesis using d on_message_frames [of s] by simp
qed

text \<open>
  A buffer of \<open>ping\<close>, an empty unit and \<open>ack\<close>: both frames are decoded, and the reply
  to \<open>ping\<close> is sent before \<open>ack\<close> fails.
\<close>

theorem on_message_units_in_order_witness:
  "clean_units ping_unit [] ack_unit \<and>
   decode (ping_unit @ EOT # [] @ EOT # ack_unit) = [(py ''ping'', [], []), (py ''ack'', [], [])] \<and>
   trace (on_message ex_server (Some (ping_unit @ EOT # [] @ EOT # ack_unit))) =
     [Sent (build_message (py ''PONG'') PNone)]"
proof -
  have c: "clean_units ping_unit [] ack_unit"
    by (simp add: clean_units_def ping_unit_def ack_unit_def py_def ctrl_defs)
  have u: "decode_unit ping_unit = (py ''ping'', [], [])" "decode_unit ack_unit = (py ''ack'', [], [])"
    by (simp_all add: ping_unit_def ack_unit_def decode_unit_def py_def ctrl_defs)
  have m: "manage_commands ex_server (py ''ping'') [] [] =
             Done (emit [Sent (build_message (py ''PONG'') PNone)] ex_server)"
    by (simp add: manage_commands_def send_ws_command_def ex_server_def py_def)
  have a: "manage_commands (emit [Sent (build_message (py ''PONG'') PNone)] ex_server) (py ''ack'') [] [] =
             Raised IndexError (emit [Sent (build_message (py ''PONG'') PNone)] ex_server)"
    by (simp add: manage_commands_def item_at_def py_def)
  have t: "trace (emit [Sent (build_message (py ''PONG'') PNone)] ex_server) =
             [Sent (build_message (py ''PONG'') PNone)]"
    by (simp add: emit_def ex_server_def init_server_def)
  show ?thesis
    using c on_message_units_in_order [OF c, of ex_server] u
    by (simp add: m a t)
qed

text \<open>
  Claim C4 as stated fails: in a buffer of \<open>ack\<close> (whose dispatch raises IndexError)
  followed by \<open>ping\<close>, the \<open>ping\<close> is never dispatched and no PONG is sent, although
  \<open>ping\<close> alone is answered.
\<close>

theorem on_message_failure_stops_buffer_counterexample:
  "manage_commands ex_server (py ''ack'') [] [] = Raised IndexError ex_server \<and>
   trace (on_message ex_server (Some (ack_unit @ EOT # ping_unit))) = [] \<and>
   trace (on_message ex_server (Some ping_unit)) = [Sent (build_message (py ''PONG'') PNone)]"
proof -
  have a: "manage_commands ex_server (py ''ack'') [] [] = Raised IndexError ex_server"
    by (simp add: manage_commands_def item_at_def py_def)
  have m: "manage_commands ex_server (py ''ping'') [] [] =
             Done (emit [Sent (build_message (py ''PONG'') PNone)] ex_server)"
    by (simp add: manage_commands_def send_ws_command_def ex_server_def py_def)
  have u: "decode_unit ping_unit = (py ''ping'', [], [])" "decode_unit ack_unit = (py ''ack'', [], [])"
    by (simp_all add: ping_unit_def ack_unit_def decode_unit_def py_def ctrl_defs)
  have s1: "split_on EOT (ack_unit @ EOT # ping_unit) = [ack_unit, ping_unit]"
    by (simp add: split_on_def ping_unit_def ack_unit_def py_def ctrl_defs)
  have s2: "split_on EOT ping_unit = [ping_unit]"
    by (simp add: split_on_def ping_unit_def py_def ctrl_defs)
  have l: "\<not> length ack_unit < 3" "\<not> length ping_unit < 3"
    by (simp_all add: ping_unit_def ack_unit_def py_def)
  have t0: "trace ex_server = []" by (simp add: ex_server_def init_server_def)
  have t: "trace (emit [Sent (build_message (py ''PONG'') PNone)] ex_server) =
             [Sent (build_message (py ''PONG'') PNone)]"
    by (simp add: emit_def t0)
  show ?thesis
    by (simp add: a on_message_def s1 s2 l u m t t0)
qed

lemma update_binary_sensor_enabled:
  "bs_enabled s family \<Longrightarrow>
   update_binary_sensor s family i status name = bs_store s family i status name"
  by (auto simp add: bs_enabled_def update_binary_sensor_def)

lemma bs_update_known:
  assumes "bs_known s family i sensor" and "0 \<le> status"
  shows "update_binary_sensor s family i status None =
           Done (emit [WriteState (bs_unique_id sensor)]
                  (s\<lparr>binary_sensors := (binary_sensors s)
                       (bs_set_sensor_uid family i \<mapsto>
                          fst (bs_update_state (env s) sensor (Some status)))\<rparr>))"
proof -
  have e: "bs_enabled s family"
    and k: "binary_sensors s (bs_set_sensor_uid family i) = Some sensor"
    using assms(1) by (simp_all add: bs_known_def)
  have "bs_store s family i status None =
          bs_update_existing s (bs_set_sensor_uid family i) sensor status None"
    using k by (simp add: bs_store_def)
  moreover have "snd (bs_update_state (env s) sensor (Some status)) = [WriteState (bs_unique_id sensor)]"
    by (simp add: bs_update_state_def)
  ultimately show ?thesis
    using assms(2) update_binary_sensor_enabled [OF e]
    by (simp add: bs_update_existing_def split_beta)
qed




lemma update_switch_enabled:
  "fetch_lights (settings s) \<Longrightarrow> update_switch s 1 i status name = sw_store s 1 i status name"
  by (simp add: update_switch_def)

lemma sw_update_known:
  assumes "sw_known s i switch" and "0 \<le> status"
  shows "update_switch s 1 i status None =
           Done (emit [WriteState (sw_unique_id switch)]
                  (s\<lparr>switches := (switches s)
                       (sw_set_sensor_uid 1 i \<mapsto> switch\<lparr>sw_attr_is_on := Some (status \<noteq> 0)\<rparr>)\<rparr>))"
proof -
  have e: "fetch_lights (settings s)"
    and k: "switches s (sw_set_sensor_uid 1 i) = Some switch"
    using assms(1) by (simp_all add: sw_known_def)
  have "sw_store s 1 i status None =
          sw_update_existing s (sw_set_sensor_uid 1 i) switch status None"
    using k by (simp add: sw_store_def)
  then show ?thesis
    using assms(2) update_switch_enabled [OF e]
    by (simp add: sw_update_existing_def sw_update_state_def)
qed






lemma sw_create_fresh:
  assumes "fresh_switch s i cb"
  shows "update_switch s 1 i st nm =
           Done (emit [AddSwitch cb (sw_set_sensor_uid 1 i)]
                  (s\<lparr>switches := (switches s)
                       (sw_set_sensor_uid 1 i \<mapsto>
                          light_switch_init (env s) (sw_set_sensor_uid 1 i) 1 i (Some st) nm nm)\<rparr>))"
proof -
  have f: "fetch_lights (settings s)" "get_entity_names (settings s)"
    "switches s (sw_set_sensor_uid 1 i) = None" "async_add_sw_entities s = Some cb"
    using assms by (simp_all add: fresh_switch_def)
  have "sw_store s 1 i st nm = sw_create s (sw_set_sensor_uid 1 i) 1 i st nm"
    using f(3) by (simp add: sw_store_def)
  moreover have "sw_create s (sw_set_sensor_uid 1 i) 1 i st nm =
      Done (emit [AddSwitch cb (sw_set_sensor_uid 1 i)]
                  (s\<lparr>switches := (switches s)
                       (sw_set_sensor_uid 1 i \<mapsto>
                          light_switch_init (env s) (sw_set_sensor_uid 1 i) 1 i (Some st) nm nm)\<rparr>))"
    using f(2,4) by (cases nm) (simp_all add: sw_create_def)
  ultimately show ?thesis using update_switch_enabled [OF f(1)] by simp
qed

lemma sw_seed_known:
  assumes "sw_known s i switch" and "get_entity_names (settings s)"
    and "sw_set_sensor_uid 1 i \<notin> sw_name_changed (env s)"
  shows "update_switch s 1 i (- 1) (Some name) =
           Done (emit [WriteState (sw_unique_id switch), WriteState (sw_unique_id switch)]
                  (s\<lparr>switches := (switches s)
                       (sw_set_sensor_uid 1 i \<mapsto> switch\<lparr>sw_ave_name := Some name, sw_name := name\<rparr>)\<rparr>))"
proof -
  have e: "fetch_lights (settings s)"
    and k: "switches s (sw_set_sensor_uid 1 i) = Some switch"
    using assms(1) by (simp_all add: sw_known_def)
  have "sw_store s 1 i (- 1) (Some name) =
          sw_update_existing s (sw_set_sensor_uid 1 i) switch (- 1) (Some name)"
    using k by (simp add: sw_store_def)
  then show ?thesis
    using assms(2,3) update_switch_enabled [OF e]
    by (simp add: sw_update_existing_def sw_set_ave_name_def sw_set_name_def
        sw_check_name_changed_def)
qed

lemma sw_orders:
  assumes "fresh_switch s i cb" and "0 \<le> status"
  shows "\<exists>a b.
           sw_seed_then_status s i name status = Done a \<and>
           sw_status_then_seed s i name status = Done b \<and>
           switches a = (switches s)
             (sw_set_sensor_uid 1 i \<mapsto>
                \<lparr>sw_unique_id = sw_set_sensor_uid 1 i, sw_is_on = Some (- 1),
                 sw_ave_device_id = i, sw_family = 1, sw_ave_name = Some name,
                 sw_attr_is_on = Some (status \<noteq> 0), sw_name = name\<rparr>) \<and>
           switches b = (switches s)
             (sw_set_sensor_uid 1 i \<mapsto>
                \<lparr>sw_unique_id = sw_set_sensor_uid 1 i, sw_is_on = Some status,
                 sw_ave_device_id = i, sw_family = 1, sw_ave_name = Some name,
                 sw_attr_is_on = Some (status \<noteq> 0), sw_name = name\<rparr>)"
proof -
  define uid where "uid = sw_set_sensor_uid 1 i"
  have f: "fetch_lights (settings s)" "get_entity_names (settings s)"
    "uid \<notin> sw_name_changed (env s)"
    using assms(1) by (simp_all add: fresh_switch_def uid_def)
  \<comment> \<open>seed, then status\<close>
  define xa where "xa = light_switch_init (env s) uid 1 i (Some (- 1)) (Some name) (Some name)"
  define a1 where "a1 = emit [AddSwitch cb uid] (s\<lparr>switches := (switches s)(uid \<mapsto> xa)\<rparr>)"
  define a2 where
    "a2 = emit [WriteState (sw_unique_id xa)]
            (a1\<lparr>switches := (switches a1)(uid \<mapsto> xa\<lparr>sw_attr_is_on := Some (status \<noteq> 0)\<rparr>)\<rparr>)"
  have A1: "update_switch s 1 i (- 1) (Some name) = Done a1"
    using sw_create_fresh [OF assms(1)] by (simp add: a1_def xa_def uid_def)
  have "sw_known a1 i xa" using f(1) by (simp add: sw_known_def a1_def emit_def uid_def)
  then have A2: "update_switch a1 1 i status None = Done a2"
    using sw_update_known [of a1 i xa status] assms(2) by (simp add: a2_def uid_def)
  have A: "sw_seed_then_status s i name status = Done a2"
    by (simp add: sw_seed_then_status_def and_then_def A1 A2)
  \<comment> \<open>status, then seed\<close>
  define xb where "xb = light_switch_init (env s) uid 1 i (Some status) None None"
  define b1 where "b1 = emit [AddSwitch cb uid] (s\<lparr>switches := (switches s)(uid \<mapsto> xb)\<rparr>)"
  define b2 where
    "b2 = emit [WriteState (sw_unique_id xb), WriteState (sw_unique_id xb)]
            (b1\<lparr>switches := (switches b1)(uid \<mapsto> xb\<lparr>sw_ave_name := Some name, sw_name := name\<rparr>)\<rparr>)"
  have B1: "update_switch s 1 i status None = Done b1"
    using sw_create_fresh [OF assms(1)] by (simp add: b1_def xb_def uid_def)
  have kb: "sw_known b1 i xb" using f(1) by (simp add: sw_known_def b1_def emit_def uid_def)
  have "get_entity_names (settings b1)" "sw_set_sensor_uid 1 i \<notin> sw_name_changed (env b1)"
    using f(2,3) by (simp_all add: b1_def emit_def uid_def)
  then have B2: "update_switch b1 1 i (- 1) (Some name) = Done b2"
    using sw_seed_known [OF kb] by (simp add: b2_def uid_def)
  have B: "sw_status_then_seed s i name status = Done b2"
    by (simp add: sw_status_then_seed_def and_then_def B1 B2)
  have ta: "switches a2 = (switches s)
             (uid \<mapsto> \<lparr>sw_unique_id = uid, sw_is_on = Some (- 1),
                 sw_ave_device_id = i, sw_family = 1, sw_ave_name = Some name,
                 sw_attr_is_on = Some (status \<noteq> 0), sw_name = name\<rparr>)"
    by (simp add: a2_def a1_def emit_def xa_def light_switch_init_def)
  have tb: "switches b2 = (switches s)
             (uid \<mapsto> \<lparr>sw_unique_id = uid, sw_is_on = Some status,
                 sw_ave_device_id = i, sw_family = 1, sw_ave_name = Some name,
                 sw_attr_is_on = Some (status \<noteq> 0), sw_name = name\<rparr>)"
    using assms(2) by (simp add: b2_def b1_def emit_def xb_def light_switch_init_def)
  show ?thesis using A B ta tb unfolding uid_def by blast
qed

lemma bs_create_unnamed:
  assumes "unnamed_sensor s i cb"
  shows "update_binary_sensor s 12 i st nm =
           Done (emit [AddBinarySensor cb (bs_set_sensor_uid 12 i)]
                  (s\<lparr>binary_sensors := (binary_sensors s)
                       (bs_set_sensor_uid 12 i \<mapsto>
                          motion_binary_sensor_init (env s) (bs_set_sensor_uid 12 i) 12 i (MBool (st > 0)))\<rparr>))"
proof -
  have f: "fetch_sensor_areas (settings s)" "\<not> get_entity_names (settings s)"
    "binary_sensors s (bs_set_sensor_uid 12 i) = None" "async_add_bs_entities s = Some cb"
    using assms by (simp_all add: unnamed_sensor_def)
  have e: "bs_enabled s 12" using f(1) by (simp add: bs_enabled_def)
  have "bs_store s 12 i st nm = bs_create s (bs_set_sensor_uid 12 i) 12 i st nm"
    using f(3) by (simp add: bs_store_def)
  then show ?thesis
    using f(2,4) update_binary_sensor_enabled [OF e]
    by (simp add: bs_create_def emit_def)
qed

lemma bs_seed_known_unnamed:
  assumes "bs_known s 12 i sensor" and "\<not> get_entity_names (settings s)"
  shows "update_binary_sensor s 12 i (- 1) (Some name) =
           Done (emit []
                  (s\<lparr>binary_sensors := (binary_sensors s)(bs_set_sensor_uid 12 i \<mapsto> sensor)\<rparr>))"
proof -
  have e: "bs_enabled s 12"
    and k: "binary_sensors s (bs_set_sensor_uid 12 i) = Some sensor"
    using assms(1) by (simp_all add: bs_known_def)
  have "bs_store s 12 i (- 1) (Some name) =
          bs_update_existing s (bs_set_sensor_uid 12 i) sensor (- 1) (Some name)"
    using k by (simp add: bs_store_def)
  then show ?thesis
    using assms(2) update_binary_sensor_enabled [OF e]
    by (simp add: bs_update_existing_def emit_def)
qed

lemma bs_seed_known:
  assumes "bs_known s 12 i sensor" and "get_entity_names (settings s)"
    and "bs_set_sensor_uid 12 i \<notin> bs_name_changed (env s)"
  shows "update_binary_sensor s 12 i (- 1) (Some name) =
           Done (emit [WriteState (bs_unique_id sensor)]
                  (s\<lparr>binary_sensors := (binary_sensors s)
                       (bs_set_sensor_uid 12 i \<mapsto> sensor\<lparr>bs_ave_name := Some name, bs_name := name\<rparr>)\<rparr>))"
proof -
  have e: "bs_enabled s 12"
    and k: "binary_sensors s (bs_set_sensor_uid 12 i) = Some sensor"
    using assms(1) by (simp_all add: bs_known_def)
  have "bs_store s 12 i (- 1) (Some name) =
          bs_update_existing s (bs_set_sensor_uid 12 i) sensor (- 1) (Some name)"
    using k by (simp add: bs_store_def)
  then show ?thesis
    using assms(2,3) update_binary_sensor_enabled [OF e]
    by (simp add: bs_update_existing_def bs_set_ave_name_def bs_set_name_def
        bs_check_name_changed_def emit_def)
qed

lemma bs_orders:
  assumes "unnamed_sensor s i cb" and "0 \<le> status"
  shows "\<exists>a b.
           bs_seed_then_status s i name status = Done a \<and>
           bs_status_then_seed s i name status = Done b \<and>
           binary_sensors a = (binary_sensors s)
             (bs_set_sensor_uid 12 i \<mapsto>
                \<lparr>bs_unique_id = bs_set_sensor_uid 12 i, bs_is_motion_detected = MInt status,
                 bs_ave_device_id = i, bs_family = 12,
                 bs_last_revealed = (if status > 0 then Some (utcnow (env s)) else None),
                 bs_last_cleared = None, bs_ave_name = None,
                 bs_name = bs_build_name (env s) 12 i\<rparr>) \<and>
           binary_sensors b = (binary_sensors s)
             (bs_set_sensor_uid 12 i \<mapsto>
                \<lparr>bs_unique_id = bs_set_sensor_uid 12 i, bs_is_motion_detected = MBool (status > 0),
                 bs_ave_device_id = i, bs_family = 12, bs_last_revealed = None,
                 bs_last_cleared = None, bs_ave_name = None,
                 bs_name = bs_build_name (env s) 12 i\<rparr>)"
proof -
  define uid where "uid = bs_set_sensor_uid 12 i"
  have f: "fetch_sensor_areas (settings s)" "\<not> get_entity_names (settings s)"
    using assms(1) by (simp_all add: unnamed_sensor_def)
  \<comment> \<open>seed, then status\<close>
  define xa where "xa = motion_binary_sensor_init (env s) uid 12 i (MBool ((- 1 :: int) > 0))"
  define a1 where
    "a1 = emit [AddBinarySensor cb uid] (s\<lparr>binary_sensors := (binary_sensors s)(uid \<mapsto> xa)\<rparr>)"
  define a2 where
    "a2 = emit [WriteState (bs_unique_id xa)]
            (a1\<lparr>binary_sensors := (binary_sensors a1)
                  (uid \<mapsto> fst (bs_update_state (env a1) xa (Some status)))\<rparr>)"
  have A1: "update_binary_sensor s 12 i (- 1) (Some name) = Done a1"
    using bs_create_unnamed [OF assms(1), of "- 1" "Some name"] by (simp add: a1_def xa_def uid_def)
  have "bs_known a1 12 i xa"
    using f(1) by (simp add: bs_known_def bs_enabled_def a1_def emit_def uid_def)
  then have A2: "update_binary_sensor a1 12 i status None = Done a2"
    using bs_update_known [of a1 12 i xa status] assms(2) by (simp add: a2_def uid_def)
  have A: "bs_seed_then_status s i name status = Done a2"
    by (simp add: bs_seed_then_status_def and_then_def A1 A2)
  \<comment> \<open>status, then seed\<close>
  define xb where "xb = motion_binary_sensor_init (env s) uid 12 i (MBool (status > 0))"
  define b1 where
    "b1 = emit [AddBinarySensor cb uid] (s\<lparr>binary_sensors := (binary_sensors s)(uid \<mapsto> xb)\<rparr>)"
  define b2 where
    "b2 = emit [] (b1\<lparr>binary_sensors := (binary_sensors b1)(uid \<mapsto> xb)\<rparr>)"
  have B1: "update_binary_sensor s 12 i status None = Done b1"
    using bs_create_unnamed [OF assms(1), of status None] by (simp add: b1_def xb_def uid_def)
  have kb: "bs_known b1 12 i xb"
    using f(1) by (simp add: bs_known_def bs_enabled_def b1_def emit_def uid_def)
  have "\<not> get_entity_names (settings b1)"
    using f(2) by (simp add: b1_def emit_def)
  then have B2: "update_binary_sensor b1 12 i (- 1) (Some name) = Done b2"
    using bs_seed_known_unnamed [OF kb] by (simp add: b2_def uid_def)
  have B: "bs_status_then_seed s i name status = Done b2"
    by (simp add: bs_status_then_seed_def and_then_def B1 B2)
  have ta: "binary_sensors a2 = (binary_sensors s)
             (uid \<mapsto>
                \<lparr>bs_unique_id = uid, bs_is_motion_detected = MInt status,
                 bs_ave_device_id = i, bs_family = 12,
                 bs_last_revealed = (if status > 0 then Some (utcnow (env s)) else None),
                 bs_last_cleared = None, bs_ave_name = None,
                 bs_name = bs_build_name (env s) 12 i\<rparr>)"
    by (simp add: a2_def a1_def emit_def xa_def motion_binary_sensor_init_def bs_update_state_def)
  have tb: "binary_sensors b2 = (binary_sensors s)
             (uid \<mapsto>
                \<lparr>bs_unique_id = uid, bs_is_motion_detected = MBool (status > 0),
                 bs_ave_device_id = i, bs_family = 12, bs_last_revealed = None,
                 bs_last_cleared = None, bs_ave_name = None,
                 bs_name = bs_build_name (env s) 12 i\<rparr>)"
    by (simp add: b2_def b1_def emit_def xb_def motion_binary_sensor_init_def)
  show ?thesis using A B ta tb unfolding uid_def by blast
qed

text \<open>
  Claim C6, as amended. Both orders of the seed and the status update leave exactly one
  entry for the device, with the same shown name and the same observable on/off value:
  for a new light with name fetching on (the entry carries the hub's name as shown name
  and as AVE name), and for a new area with name fetching off (the entry carries the
  built name). The stored entries are not equal: the switch keeps the status it was
  created with in \<open>_is_on\<close> (-1 or the status), the binary sensor holds the status as an
  integer in one order and as a boolean in the other, and for a positive status
  \<open>last_revealed\<close> is stamped only when the status arrives after the seed. The seed of
  a new area with name fetching on is left out.
\<close>

theorem creation_order:
  assumes "0 \<le> status"
  shows "(fresh_switch s i cb \<longrightarrow>
            (\<exists>a b.
               sw_seed_then_status s i name status = Done a \<and>
               sw_status_then_seed s i name status = Done b \<and>
               switches a = (switches s)
                 (sw_set_sensor_uid 1 i \<mapsto>
                    \<lparr>sw_unique_id = sw_set_sensor_uid 1 i, sw_is_on = Some (- 1),
                     sw_ave_device_id = i, sw_family = 1, sw_ave_name = Some name,
                     sw_attr_is_on = Some (status \<noteq> 0), sw_name = name\<rparr>) \<and>
               switches b = (switches s)
                 (sw_set_sensor_uid 1 i \<mapsto>
                    \<lparr>sw_unique_id = sw_set_sensor_uid 1 i, sw_is_on = Some status,
                     sw_ave_device_id = i, sw_family = 1, sw_ave_name = Some name,
                     sw_attr_is_on = Some (status \<noteq> 0), sw_name = name\<rparr>))) \<and>
         (unnamed_sensor t j cb' \<longrightarrow>
            (\<exists>a b.
               bs_seed_then_status t j name status = Done a \<and>
               bs_status_then_seed t j name status = Done b \<and>
               binary_sensors a = (binary_sensors t)
                 (bs_set_sensor_uid 12 j \<mapsto>
                    \<lparr>bs_unique_id = bs_set_sensor_uid 12 j, bs_is_motion_detected = MInt status,
                     bs_ave_device_id = j, bs_family = 12,
                     bs_last_revealed = (if status > 0 then Some (utcnow (env t)) else None),
                     bs_last_cleared = None, bs_ave_name = None,
                     bs_name = bs_build_name (env t) 12 j\<rparr>) \<and>
               binary_sensors b = (binary_sensors t)
                 (bs_set_sensor_uid 12 j \<mapsto>
                    \<lparr>bs_unique_id = bs_set_sensor_uid 12 j,
                     bs_is_motion_detected = MBool (status > 0),
                     bs_ave_device_id = j, bs_family = 12, bs_last_revealed = None,
                     bs_last_cleared = None, bs_ave_name = None,
                     bs_name = bs_build_name (env t) 12 j\<rparr>) \<and>
               map_option bs_is_on (binary_sensors a (bs_set_sensor_uid 12 j)) =
                 map_option bs_is_on (binary_sensors b (bs_set_sensor_uid 12 j))))"
proof (intro conjI impI)
  assume "fresh_switch s i cb"
  then show "\<exists>a b.
               sw_seed_then_status s i name status = Done a \<and>
               sw_status_then_seed s i name status = Done b \<and>
               switches a = (switches s)
                 (sw_set_sensor_uid 1 i \<mapsto>
                    \<lparr>sw_unique_id = sw_set_sensor_uid 1 i, sw_is_on = Some (- 1),
                     sw_ave_device_id = i, sw_family = 1, sw_ave_name = Some name,
                     sw_attr_is_on = Some (status \<noteq> 0), sw_name = name\<rparr>) \<and>
               switches b = (switches s)
                 (sw_set_sensor_uid 1 i \<mapsto>
                    \<lparr>sw_unique_id = sw_set_sensor_uid 1 i, sw_is_on = Some status,
                     sw_ave_device_id = i, sw_family = 1, sw_ave_name = Some name,
                     sw_attr_is_on = Some (status \<noteq> 0), sw_name = name\<rparr>)"
    using assms by (rule sw_orders)
next
  assume "unnamed_sensor t j cb'"
  then obtain a b where ab:
    "bs_seed_then_status t j name status = Done a"
    "bs_status_then_seed t j name status = Done b"
    "binary_sensors a = (binary_sensors t)
       (bs_set_sensor_uid 12 j \<mapsto>
          \<lparr>bs_unique_id = bs_set_sensor_uid 12 j, bs_is_motion_detected = MInt status,
           bs_ave_device_id = j, bs_family = 12,
           bs_last_revealed = (if status > 0 then Some (utcnow (env t)) else None),
           bs_last_cleared = None, bs_ave_name = None,
           bs_name = bs_build_name (env t) 12 j\<rparr>)"
    "binary_sensors b = (binary_sensors t)
       (bs_set_sensor_uid 12 j \<mapsto>
          \<lparr>bs_unique_id = bs_set_sensor_uid 12 j,
           bs_is_motion_detected = MBool (status > 0),
           bs_ave_device_id = j, bs_family = 12, bs_last_revealed = None,
           bs_last_cleared = None, bs_ave_name = None,
           bs_name = bs_build_name (env t) 12 j\<rparr>)"
    using bs_orders [OF _ assms, of t j cb' name] by blast
  have "map_option bs_is_on (binary_sensors a (bs_set_sensor_uid 12 j)) =
          map_option bs_is_on (binary_sensors b (bs_set_sensor_uid 12 j))"
    by (simp add: ab(3,4))
  then show "\<exists>a b.
               bs_seed_then_status t j name status = Done a \<and>
               bs_status_then_seed t j name status = Done b \<and>
               binary_sensors a = (binary_sensors t)
                 (bs_set_sensor_uid 12 j \<mapsto>
                    \<lparr>bs_unique_id = bs_set_sensor_uid 12 j, bs_is_motion_detected = MInt status,
                     bs_ave_device_id = j, bs_family = 12,
                     bs_last_revealed = (if status > 0 then Some (utcnow (env t)) else None),
                     bs_last_cleared = None, bs_ave_name = None,
                     bs_name = bs_build_name (env t) 12 j\<rparr>) \<and>
               binary_sensors b = (binary_sensors t)
                 (bs_set_sensor_uid 12 j \<mapsto>
                    \<lparr>bs_unique_id = bs_set_sensor_uid 12 j,
                     bs_is_motion_detected = MBool (status > 0),
                     bs_ave_device_id = j, bs_family = 12, bs_last_revealed = None,
                     bs_last_cleared = None, bs_ave_name = None,
                     bs_name = bs_build_name (env t) 12 j\<rparr>) \<and>
               map_option bs_is_on (binary_sensors a (bs_set_sensor_uid 12 j)) =
                 map_option bs_is_on (binary_sensors b (bs_set_sensor_uid 12 j))"
    using ab by blast
qed

lemma ex_server_fresh:
  "fresh_switch ex_server 7 2" "unnamed_sensor ex_unnamed 5 1"
  by (simp_all add: fresh_switch_def unnamed_sensor_def ex_unnamed_def ex_server_def
      init_server_def ex_settings_def ex_env_def)

lemma ex_unnamed_env:
  "utcnow (env ex_unnamed) = 10" "BRAND_PREFIX (env ex_unnamed) = py ''AVE''"
  by (simp_all add: ex_unnamed_def ex_server_def init_server_def ex_env_def)

text \<open>
  The theorem at the example sessions, for light 7 (names fetched) and area 5 (names not
  fetched) with status 0.
\<close>

theorem creation_order_witness:
  "(0::int) \<le> 0 \<and> fresh_switch ex_server 7 2 \<and> unnamed_sensor ex_unnamed 5 1 \<and>
   (\<exists>a b.
      sw_seed_then_status ex_server 7 (py ''Lamp'') 0 = Done a \<and>
      sw_status_then_seed ex_server 7 (py ''Lamp'') 0 = Done b \<and>
      map_option sw_name (switches a (sw_set_sensor_uid 1 7)) = Some (py ''Lamp'') \<and>
      map_option sw_name (switches b (sw_set_sensor_uid 1 7)) = Some (py ''Lamp'') \<and>
      map_option sw_attr_is_on (switches a (sw_set_sensor_uid 1 7)) = Some (Some False) \<and>
      map_option sw_attr_is_on (switches b (sw_set_sensor_uid 1 7)) = Some (Some False)) \<and>
   (\<exists>a b.
      bs_seed_then_status ex_unnamed 5 (py ''Hall'') 0 = Done a \<and>
      bs_status_then_seed ex_unnamed 5 (py ''Hall'') 0 = Done b \<and>
      map_option bs_name (binary_sensors a (bs_set_sensor_uid 12 5)) =
        map_option bs_name (binary_sensors b (bs_set_sensor_uid 12 5)) \<and>
      map_option bs_is_on (binary_sensors a (bs_set_sensor_uid 12 5)) = Some (Some False) \<and>
      map_option bs_is_on (binary_sensors b (bs_set_sensor_uid 12 5)) = Some (Some False))"
proof -
  have h: "(0::int) \<le> 0" by simp
  note t = creation_order [OF h, of ex_server 7 2 "py ''Lamp''" ex_unnamed 5 1]
  from t ex_server_fresh(1) obtain a b where sw:
    "sw_seed_then_status ex_server 7 (py ''Lamp'') 0 = Done a"
    "sw_status_then_seed ex_server 7 (py ''Lamp'') 0 = Done b"
    "map_option sw_name (switches a (sw_set_sensor_uid 1 7)) = Some (py ''Lamp'')"
    "map_option sw_name (switches b (sw_set_sensor_uid 1 7)) = Some (py ''Lamp'')"
    "map_option sw_attr_is_on (switches a (sw_set_sensor_uid 1 7)) = Some (Some False)"
    "map_option sw_attr_is_on (switches b (sw_set_sensor_uid 1 7)) = Some (Some False)"
    by auto
  note t' = creation_order [OF h, of ex_server 7 2 "py ''Hall''" ex_unnamed 5 1]
  from t' ex_server_fresh(2) obtain c d where bs:
    "bs_seed_then_status ex_unnamed 5 (py ''Hall'') 0 = Done c"
    "bs_status_then_seed ex_unnamed 5 (py ''Hall'') 0 = Done d"
    "map_option bs_name (binary_sensors c (bs_set_sensor_uid 12 5)) =
       map_option bs_name (binary_sensors d (bs_set_sensor_uid 12 5))"
    "map_option bs_is_on (binary_sensors c (bs_set_sensor_uid 12 5)) = Some (Some False)"
    "map_option bs_is_on (binary_sensors d (bs_set_sensor_uid 12 5)) = Some (Some False)"
    by auto
  show ?thesis using h ex_server_fresh sw bs by blast
qed

text \<open>
  Claim C6 as stated fails: for the new light 7 and status 1 the stored status is -1
  after seed-then-status and 1 after status-then-seed; for the new area 5 (names not
  fetched) and status 1, seed-then-status leaves \<open>last_revealed\<close> at the current time,
  status-then-seed leaves it unset.
\<close>

theorem creation_order_counterexample:
  "fresh_switch ex_server 7 2 \<and>
   map_option sw_is_on
     (switches (outcome_state (sw_seed_then_status ex_server 7 (py ''Lamp'') 1))
        (sw_set_sensor_uid 1 7)) = Some (Some (- 1)) \<and>
   map_option sw_is_on
     (switches (outcome_state (sw_status_then_seed ex_server 7 (py ''Lamp'') 1))
        (sw_set_sensor_uid 1 7)) = Some (Some 1) \<and>
   unnamed_sensor ex_unnamed 5 1 \<and>
   map_option bs_last_revealed
     (binary_sensors (outcome_state (bs_seed_then_status ex_unnamed 5 (py ''Hall'') 1))
        (bs_set_sensor_uid 12 5)) = Some (Some 10) \<and>
   map_option bs_last_revealed
     (binary_sensors (outcome_state (bs_status_then_seed ex_unnamed 5 (py ''Hall'') 1))
        (bs_set_sensor_uid 12 5)) = Some None"
proof -
  have h: "(0::int) \<le> 1" by simp
  obtain a b where ab:
    "bs_seed_then_status ex_unnamed 5 (py ''Hall'') 1 = Done a"
    "bs_status_then_seed ex_unnamed 5 (py ''Hall'') 1 = Done b"
    "map_option bs_last_revealed (binary_sensors a (bs_set_sensor_uid 12 5)) = Some (Some 10)"
    "map_option bs_last_revealed (binary_sensors b (bs_set_sensor_uid 12 5)) = Some None"
    using bs_orders [OF ex_server_fresh(2) h, of "py ''Hall''"] ex_unnamed_env(1) by auto
  obtain c d where cd:
    "sw_seed_then_status ex_server 7 (py ''Lamp'') 1 = Done c"
    "sw_status_then_seed ex_server 7 (py ''Lamp'') 1 = Done d"
    "map_option sw_is_on (switches c (sw_set_sensor_uid 1 7)) = Some (Some (- 1))"
    "map_option sw_is_on (switches d (sw_set_sensor_uid 1 7)) = Some (Some 1)"
    using sw_orders [OF ex_server_fresh(1) h, of "py ''Lamp''"] by auto
  show ?thesis using ex_server_fresh ab cd by simp
qed

text \<open>
  Claim C8. With \<open>fetch_sensor_areas\<close> off, an \<open>upd\<close> frame whose parameters begin with
  \<open>X\<close>, \<open>A\<close> returns with the session state unchanged, whatever the other parameters
  and the records: no notification is added to the trace and both device tables are as
  before.
\<close>

theorem upd_antitheft_area_gated:
  assumes "\<not> fetch_sensor_areas (settings s)"
  shows "manage_commands s (py ''upd'') (py ''X'' # py ''A'' # rest) records = Done s \<and>
         dispatch_frames s [(py ''upd'', py ''X'' # py ''A'' # rest, records)] = Done s"
  using upd_xa_gated [OF assms] by simp

text \<open>
  The theorem at the example session with sensor areas switched off.
\<close>

theorem upd_antitheft_area_gated_witness:
  "\<not> fetch_sensor_areas (settings ex_no_areas) \<and>
   manage_commands ex_no_areas (py ''upd'')
     [py ''X'', py ''A'', py ''3'', py ''0'', py ''0'', py ''0'', py ''1''] [] = Done ex_no_areas"
proof -
  have h: "\<not> fetch_sensor_areas (settings ex_no_areas)"
    by (simp add: ex_no_areas_def ex_settings_def)
  show ?thesis
    using h upd_antitheft_area_gated [OF h, of "[py ''3'', py ''0'', py ''0'', py ''0'', py ''1'']" "[]"]
    by simp
qed

end
